theory Spec2Isabelle
  imports Complex_Main
begin

section \<open>Numbers\<close>

text \<open>
  The TypeScript \<open>number\<close>, an IEEE double, and the shader's \<open>f32\<close> are modelled by the real
  numbers. Sums, products and quotients are exact unless stated otherwise: the rounding of
  a result to the nearest float and overflow are not modelled. Four features of floating
  point are kept, where a result of the program depends on them.

  \<^item> A quotient with denominator zero is not a number: wherever the source divides by a
    quantity that can be zero, the model returns an error value or \<open>None\<close> in place of HOL's
    \<open>x / 0 = 0\<close>.

  \<^item> A power that is too small for the format is zero: \<open>pow(x, y)\<close> is 0 when the exact power
    is at most half the smallest positive number of the format, \<open>2\<^sup>-\<^sup>1\<^sup>0\<^sup>7\<^sup>5\<close> for a double and
    \<open>2\<^sup>-\<^sup>1\<^sup>5\<^sup>0\<close> for an \<open>f32\<close>, so that a quotient by it has denominator zero.

  \<^item> Where the integer part or the fractional part of a result is taken (\<open>Math.floor\<close> in
    \<open>Utils.addColor\<close>, the remainder \<open>% 1.0\<close> in \<open>mapDiskCoords\<close>), the operations before it
    round to the nearest number of the format, ties to the even significand:
    \<open>round_float p emin\<close> rounds to \<open>p\<close> significant bits, with \<open>emin\<close> the exponent of the
    smallest normal number, below which the spacing stays that of \<open>2\<^sup>e\<^sup>m\<^sup>i\<^sup>n\<close>.

  \<^item> The literal \<open>3.14159\<close> of the shader is the \<open>f32\<close> nearest to it,
    \<open>823549 / 262144 = 3.141590118408203125\<close>; twice this number is the \<open>f32\<close> nearest to
    \<open>2.0 * 3.14159\<close>.
\<close>

definition round_even :: "real \<Rightarrow> int" where
  "round_even x =
     (let n = \<lfloor>x\<rfloor>; d = x - of_int n
      in if d < 1 / 2 then n else if 1 / 2 < d then n + 1 else if even n then n else n + 1)"

definition round_float :: "nat \<Rightarrow> int \<Rightarrow> real \<Rightarrow> real" where
  "round_float p emin x =
     (if x = 0 then 0
      else
        let e = max \<lfloor>log 2 \<bar>x\<bar>\<rfloor> emin;
            q = e - int p + 1
        in of_int (round_even (x / 2 powi q)) * 2 powi q)"

definition fl64 :: "real \<Rightarrow> real" where
  "fl64 x = round_float 53 (- 1022) x"

definition fl32 :: "real \<Rightarrow> real" where
  "fl32 x = round_float 24 (- 126) x"


definition pow_f32 :: "real \<Rightarrow> real \<Rightarrow> real" where
  "pow_f32 x y = (if x powr y \<le> 1 / 2 ^ 150 then 0 else x powr y)"

definition pi_f32 :: real where
  "pi_f32 = 823549 / 262144"

text \<open>
  The bit pattern of an \<open>f32\<close>, read as an unsigned integer: sign, exponent with bias 127,
  23 bits of the significand (normal numbers and zero).
\<close>

definition f32_bits :: "real \<Rightarrow> nat" where
  "f32_bits x =
     (if x = 0 then 0
      else
        let e = \<lfloor>log 2 \<bar>x\<bar>\<rfloor>;
            m = round_even ((\<bar>x\<bar> / 2 powi e - 1) * 2 ^ 23)
        in nat ((if x < 0 then 2 ^ 31 else 0) + (e + 127) * 2 ^ 23 + m))"

section \<open>Vector3D (models/Vector3D.ts)\<close>

text \<open>The fields \<open>x\<close>, \<open>y\<close>, \<open>z\<close> of the class are called \<open>vx\<close>, \<open>vy\<close>, \<open>vz\<close> here.\<close>

record Vector3D =
  vx :: real
  vy :: real
  vz :: real

datatype error =
    DivideByZero          \<comment> \<open>\<open>throw new Error("Cannot divide by zero")\<close>\<close>
  | NoCanvasContext       \<comment> \<open>\<open>throw new Error("Failed to get 2D context for canvas")\<close>\<close>
  | ImageLoadFailed       \<comment> \<open>a rejected \<open>fetch\<close>, \<open>blob\<close> or \<open>createImageBitmap\<close> promise\<close>

definition vec3 :: "real \<Rightarrow> real \<Rightarrow> real \<Rightarrow> Vector3D" where
  "vec3 a b c = \<lparr>vx = a, vy = b, vz = c\<rparr>"

definition add :: "Vector3D \<Rightarrow> Vector3D \<Rightarrow> Vector3D" where
  "add u v = vec3 (vx u + vx v) (vy u + vy v) (vz u + vz v)"

definition subtract :: "Vector3D \<Rightarrow> Vector3D \<Rightarrow> Vector3D" where
  "subtract u v = vec3 (vx u - vx v) (vy u - vy v) (vz u - vz v)"

definition multiply :: "Vector3D \<Rightarrow> real \<Rightarrow> Vector3D" where
  "multiply u scalar = vec3 (vx u * scalar) (vy u * scalar) (vz u * scalar)"

definition divide_v :: "Vector3D \<Rightarrow> real \<Rightarrow> error + Vector3D" where
  "divide_v u scalar =
     (if scalar = 0 then Inl DivideByZero
      else let invScalar = 1 / scalar
           in Inr (vec3 (vx u * invScalar) (vy u * invScalar) (vz u * invScalar)))"

definition dot :: "Vector3D \<Rightarrow> Vector3D \<Rightarrow> real" where
  "dot u v = vx u * vx v + vy u * vy v + vz u * vz v"

definition cross :: "Vector3D \<Rightarrow> Vector3D \<Rightarrow> Vector3D" where
  "cross u v = vec3 (vy u * vz v - vz u * vy v)
                    (vz u * vx v - vx u * vz v)
                    (vx u * vy v - vy u * vx v)"

definition norm2 :: "Vector3D \<Rightarrow> real" where
  "norm2 u = vx u * vx u + vy u * vy u + vz u * vz u"

definition norm_v :: "Vector3D \<Rightarrow> real" where
  "norm_v u = sqrt (norm2 u)"

definition normalize_v :: "Vector3D \<Rightarrow> error + Vector3D" where
  "normalize_v u =
     (let length = norm_v u
      in if length = 0 then Inr (vec3 0 0 0) else divide_v u length)"


section \<open>Scene\<close>

text \<open>
  The hitables of a scene, by the name of their class (\<open>h.constructor.name\<close>): the disk
  variants carry their inner and outer radius, the sky its radius and texture offset. The
  images they hold are not modelled.
\<close>

datatype hitable =
    TexturedDisk real real
  | Disk real real
  | Horizon
  | Sky real real

record SchwarzschildBlackHoleEquation =
  h2 :: real
  stepSize :: real
  potentialCoefficient :: real

text \<open>
  The class \<open>Scene\<close> (Scene.ts): camera position, look-at point, up vector, field of view
  in degrees, the spherical coordinates of the camera, the ordered list of hitables and the
  equation. \<open>Utils.toSpherical\<close> (Utils.ts) returns the triple \<open>(r, theta, phi)\<close>;
  \<open>Math.atan2\<close> is the angle of the point \<open>(x, y)\<close> in \<open>(-\<pi>, \<pi>]\<close>.
\<close>

record Scene =
  cameraPosition :: Vector3D
  cameraLookAt :: Vector3D
  upVector :: Vector3D
  fov :: real
  cameraDistance :: real
  cameraAngleHorz :: real
  cameraAngleVert :: real
  cameraTilt :: real
  hitables :: "hitable list"
  schwarzschildEquation :: SchwarzschildBlackHoleEquation

definition atan2 :: "real \<Rightarrow> real \<Rightarrow> real" where
  "atan2 y x =
     (if 0 < x then arctan (y / x)
      else if x < 0 then (if 0 \<le> y then arctan (y / x) + pi else arctan (y / x) - pi)
      else if 0 < y then pi / 2
      else if y < 0 then - (pi / 2)
      else 0)"

definition Utils_toSpherical :: "real \<Rightarrow> real \<Rightarrow> real \<Rightarrow> real \<times> real \<times> real" where
  "Utils_toSpherical x y z =
     (let r = sqrt (x * x + y * y + z * z)
      in if r = 0 then (0, 0, 0)
         else let theta = arccos (z / r); phi = atan2 y x in (r, theta, phi))"

text \<open>
  The constructors: a new equation has the default step size 0.16 and no angular momentum
  yet; a new scene computes the spherical coordinates of the camera and creates its
  equation from the curvature coefficient.
\<close>

definition newSchwarzschildBlackHoleEquation :: "real \<Rightarrow> SchwarzschildBlackHoleEquation" where
  "newSchwarzschildBlackHoleEquation k = \<lparr>h2 = 0, stepSize = 0.16, potentialCoefficient = k\<rparr>"

definition newScene ::
  "Vector3D \<Rightarrow> Vector3D \<Rightarrow> Vector3D \<Rightarrow> real \<Rightarrow> hitable list \<Rightarrow> real \<Rightarrow> Scene" where
  "newScene position lookAt up fieldOfView hs curvatureCoefficient =
     (let spherical = Utils_toSpherical (vx position) (vy position) (vz position)
      in \<lparr>cameraPosition = position, cameraLookAt = lookAt, upVector = up,
          fov = fieldOfView,
          cameraDistance = fst spherical,
          cameraAngleHorz = snd (snd spherical) - 0.1,
          cameraAngleVert = fst (snd spherical),
          cameraTilt = 0,
          hitables = hs,
          schwarzschildEquation = newSchwarzschildBlackHoleEquation curvatureCoefficient\<rparr>)"

section \<open>The frame driver (class RayProcessor in RayProcessor.ts)\<close>

text \<open>
  GPU resources are handles (natural numbers) handed out by the device in the order of
  creation. The calls made on the device that matter for the lifetime of a texture are
  recorded, oldest first, in \<open>gpuLog\<close>.
\<close>

record BindGroup =
  bgOutputTexture :: nat        \<comment> \<open>binding 1\<close>
  bgDiskTexture :: nat          \<comment> \<open>binding 2\<close>
  bgSkyTexture :: nat           \<comment> \<open>binding 3\<close>
  bgAccumulationBuffer :: nat   \<comment> \<open>binding 6\<close>

datatype gpu_event =
    CreateTexture nat
  | CopyExternalImageToTexture nat
  | DestroyTexture nat
  | CreateBindGroup BindGroup
  | Submit BindGroup

record image =
  imgWidth :: nat
  imgHeight :: nat

record RayProcessor =
  width :: nat
  height :: nat
  scene :: Scene
  frameCount :: nat
  maxIterations :: real
  jitterScale :: real
  outputTexture :: nat
  accumulationBuffer :: nat
  diskTexture :: nat
  skyTexture :: nat
  uniformBindGroup :: BindGroup
  nextHandle :: nat
  gpuLog :: "gpu_event list"

definition createBindGroup :: "RayProcessor \<Rightarrow> BindGroup" where
  "createBindGroup rp =
     \<lparr>bgOutputTexture = outputTexture rp, bgDiskTexture = diskTexture rp,
      bgSkyTexture = skyTexture rp, bgAccumulationBuffer = accumulationBuffer rp\<rparr>"

definition reset :: "RayProcessor \<Rightarrow> RayProcessor" where
  "reset rp = rp\<lparr>frameCount := 0\<rparr>"

definition setScene :: "Scene \<Rightarrow> RayProcessor \<Rightarrow> RayProcessor" where
  "setScene sc rp = reset (rp\<lparr>scene := sc\<rparr>)"

definition setMaxIterations :: "real \<Rightarrow> RayProcessor \<Rightarrow> RayProcessor" where
  "setMaxIterations iterations rp = rp\<lparr>maxIterations := iterations\<rparr>"

definition setJitterScale :: "real \<Rightarrow> RayProcessor \<Rightarrow> RayProcessor" where
  "setJitterScale scale rp = rp\<lparr>jitterScale := scale\<rparr>"

text \<open>
  \<open>loadDiskTexture\<close> and \<open>loadSkyTexture\<close> are asynchronous. Everything they await lies
  before the first call on the device, so the outcome of the awaited part is an argument:
  \<open>imageBitmap\<close> is \<open>None\<close> when \<open>fetch\<close>, \<open>blob\<close> or \<open>createImageBitmap\<close> rejects, and
  \<open>ctx\<close> tells whether the off-screen canvas gave a 2D context. The rest of the body runs
  without interruption. The drawing of the mirrored copies into the canvas of twice the
  width and height only determines the pixels of the new texture, which are not modelled.
\<close>

definition loadDiskTexture :: "image option \<Rightarrow> bool \<Rightarrow> RayProcessor \<Rightarrow> error + RayProcessor" where
  "loadDiskTexture imageBitmap ctx rp =
     (case imageBitmap of
        None \<Rightarrow> Inl ImageLoadFailed
      | Some bitmap \<Rightarrow>
          if \<not> ctx then Inl NoCanvasContext
          else
            let texture = nextHandle rp;
                rp1 = rp\<lparr>nextHandle := Suc texture,
                         gpuLog := gpuLog rp @ [CreateTexture texture]\<rparr>;
                rp2 = rp1\<lparr>gpuLog := gpuLog rp1 @ [CopyExternalImageToTexture texture]\<rparr>;
                rp3 = rp2\<lparr>gpuLog := gpuLog rp2 @ [DestroyTexture (diskTexture rp2)]\<rparr>;
                rp4 = rp3\<lparr>diskTexture := texture\<rparr>;
                rp5 = rp4\<lparr>uniformBindGroup := createBindGroup rp4,
                          gpuLog := gpuLog rp4 @ [CreateBindGroup (createBindGroup rp4)]\<rparr>
            in Inr (reset rp5))"

definition loadSkyTexture :: "image option \<Rightarrow> RayProcessor \<Rightarrow> error + RayProcessor" where
  "loadSkyTexture imageBitmap rp =
     (case imageBitmap of
        None \<Rightarrow> Inl ImageLoadFailed
      | Some bitmap \<Rightarrow>
          let texture = nextHandle rp;
              rp1 = rp\<lparr>nextHandle := Suc texture,
                       gpuLog := gpuLog rp @ [CreateTexture texture]\<rparr>;
              rp2 = rp1\<lparr>gpuLog := gpuLog rp1 @ [CopyExternalImageToTexture texture]\<rparr>;
              rp3 = rp2\<lparr>gpuLog := gpuLog rp2 @ [DestroyTexture (skyTexture rp2)]\<rparr>;
              rp4 = rp3\<lparr>skyTexture := texture\<rparr>;
              rp5 = rp4\<lparr>uniformBindGroup := createBindGroup rp4,
                        gpuLog := gpuLog rp4 @ [CreateBindGroup (createBindGroup rp4)]\<rparr>
          in Inr (reset rp5))"

text \<open>
  The position of the first occurrence of an event in a log, and the order of two events:
  \<open>happens_before a b evs\<close> holds when both occur and \<open>a\<close> occurs first.
\<close>

fun first_index :: "'a \<Rightarrow> 'a list \<Rightarrow> nat option" where
  "first_index e [] = None"
| "first_index e (x # xs) =
     (if x = e then Some 0 else map_option Suc (first_index e xs))"

definition happens_before :: "'a \<Rightarrow> 'a \<Rightarrow> 'a list \<Rightarrow> bool" where
  "happens_before a b evs =
     (case first_index a evs of
        None \<Rightarrow> False
      | Some i \<Rightarrow> (case first_index b evs of None \<Rightarrow> False | Some j \<Rightarrow> i < j))"

text \<open>
  The processor as the constructor leaves it for a scene \<open>sc\<close> and a canvas of the given
  size: output texture, accumulation buffer, the placeholder disk and sky textures and the
  first bind group have been created, and no frame has been rendered.
\<close>

definition newRayProcessor :: "nat \<Rightarrow> nat \<Rightarrow> Scene \<Rightarrow> RayProcessor" where
  "newRayProcessor w h sc =
     \<lparr>width = w, height = h, scene = sc, frameCount = 0, maxIterations = 100000,
      jitterScale = 20, outputTexture = 0, accumulationBuffer = 1, diskTexture = 2,
      skyTexture = 3,
      uniformBindGroup = \<lparr>bgOutputTexture = 0, bgDiskTexture = 2, bgSkyTexture = 3,
                          bgAccumulationBuffer = 1\<rparr>,
      nextHandle = 4,
      gpuLog = [CreateTexture 0, CreateTexture 2, CreateTexture 3,
                CreateBindGroup \<lparr>bgOutputTexture = 0, bgDiskTexture = 2, bgSkyTexture = 3,
                                 bgAccumulationBuffer = 1\<rparr>]\<rparr>"

text \<open>
  The scene that the constructor of \<open>App\<close> (App.ts) builds: the camera pose of the
  application, no hitables yet, the curvature coefficient -1.5, and the step size set
  to 0.16.
\<close>

definition appScene :: Scene where
  "appScene =
     (let sc = newScene (vec3 0 3 (-20)) (vec3 0 0 0) (vec3 (-0.3) 1 0) 80 [] (-1.5)
      in sc\<lparr>schwarzschildEquation := (schwarzschildEquation sc)\<lparr>stepSize := 0.16\<rparr>\<rparr>)"


section \<open>The black-hole equation (physics/SchwarzschildBlackHoleEquation.ts)\<close>

text \<open>
  \<open>Math.pow(pointNorm2, 2.5)\<close> is \<open>pow_f64 pointNorm2 2.5\<close>: it is 0 at the origin and at
  every point so close to it that the power is too small for a double. The quotient
  \<open>potentialCoefficient * h2 / Math.pow(pointNorm2, 2.5)\<close> then has denominator zero: the
  source computes \<open>NaN\<close> or an infinity and the velocity is no number; the model returns
  \<open>None\<close>. The method updates \<open>point\<close> and \<open>velocity\<close> in place; the model returns the new
  pair.
\<close>

definition setInitialConditions_eq ::
  "SchwarzschildBlackHoleEquation \<Rightarrow> Vector3D \<Rightarrow> Vector3D \<Rightarrow> SchwarzschildBlackHoleEquation" where
  "setInitialConditions_eq eq point velocity = eq\<lparr>h2 := norm2 (cross point velocity)\<rparr>"



section \<open>Colours\<close>

text \<open>
  \<open>ArgbColor\<close> (ArgbColor.ts) has the channels \<open>r\<close>, \<open>g\<close>, \<open>b\<close>, \<open>a\<close> on the scale 0 to 255;
  the shader's \<open>vec4<f32>\<close> colours have \<open>r\<close>, \<open>g\<close>, \<open>b\<close>, \<open>a\<close> on the scale 0 to 1. Both are
  the record \<open>vec4\<close> with the fields \<open>red\<close>, \<open>green\<close>, \<open>blue\<close>, \<open>alpha\<close>.
\<close>

record vec4 =
  red :: real
  green :: real
  blue :: real
  alpha :: real

definition rgba :: "real \<Rightarrow> real \<Rightarrow> real \<Rightarrow> real \<Rightarrow> vec4" where
  "rgba r g b a = \<lparr>red = r, green = g, blue = b, alpha = a\<rparr>"

definition Transparent :: vec4 where
  "Transparent = rgba 0 0 0 0"

subsection \<open>Utils.addColor (Utils.ts)\<close>

text \<open>
  \<open>Utils.addColor\<close> rounds its result down with \<open>Math.floor\<close>, so every operation before
  that is the operation on doubles: the exact result rounded by \<open>fl64\<close>. \<open>Math.max\<close> and
  \<open>Math.min\<close> return one of their arguments and do not round.
\<close>

definition getBrightness :: "vec4 \<Rightarrow> real" where
  "getBrightness c =
     (let r = fl64 (red c / 255); g = fl64 (green c / 255); b = fl64 (blue c / 255);
          max_c = max (max r g) b;
          min_c = min (min r g) b
      in fl64 (fl64 (max_c + min_c) / 2))"

definition cap :: "real \<Rightarrow> real \<Rightarrow> real" where
  "cap x m = (if x > m then m else x)"

definition capMin :: "real \<Rightarrow> real \<Rightarrow> real" where
  "capMin x m = (if x < m then m else x)"

text \<open>
  The argument of \<open>Math.floor\<close> for one channel:
  \<open>(1.0 - brightness) * hitColor.r + Utils.capMin(tintColor.r, 0) * 255 / 205\<close>, evaluated
  from left to right in doubles.
\<close>

definition addColorChannel :: "real \<Rightarrow> real \<Rightarrow> real \<Rightarrow> real" where
  "addColorChannel brightness hit tint =
     fl64 (fl64 (fl64 (1 - brightness) * hit) + fl64 (fl64 (capMin tint 0 * 255) / 205))"

definition Utils_addColor :: "vec4 \<Rightarrow> vec4 \<Rightarrow> vec4" where
  "Utils_addColor hitColor tintColor =
     (if tintColor = Transparent then hitColor
      else
        let brightness = getBrightness tintColor;
            r = cap (of_int \<lfloor>addColorChannel brightness (red hitColor) (red tintColor)\<rfloor>) 255;
            g = cap (of_int \<lfloor>addColorChannel brightness (green hitColor) (green tintColor)\<rfloor>) 255;
            b = cap (of_int \<lfloor>addColorChannel brightness (blue hitColor) (blue tintColor)\<rfloor>) 255
        in rgba r g b 255)"

section \<open>The ray-tracing kernel (the WGSL program in RayProcessor.ts)\<close>

text \<open>
  The uniform block. The nested structs \<open>camera\<close> and \<open>blackHole\<close> are flattened and the
  fields that share a name with a field of the processor carry a prefix:
  \<open>uniforms.camera.position\<close> is \<open>camPosition\<close>, \<open>uniforms.blackHole.stepSize\<close> is
  \<open>bhStepSize\<close>, \<open>uniforms.width\<close> is \<open>uWidth\<close>, and so on.
\<close>

record Uniforms =
  camPosition :: Vector3D
  camLookAt :: Vector3D
  camUp :: Vector3D
  camFov :: real
  camTanFov :: real
  bhPotentialCoefficient :: real
  bhStepSize :: real
  uWidth :: real
  uHeight :: real
  uFrameCount :: real
  raysPerFrame :: nat
  diskInnerRadius :: real
  diskOuterRadius :: real
  skyRadius :: real
  horizonRadius :: real
  randomSeed :: real
  uMaxIterations :: real
  uJitterScale :: real

record Ray =
  origin :: Vector3D
  direction :: Vector3D
  ray_h2 :: real

text \<open>
  Built-in functions of the shading language: \<open>fract\<close> is \<open>frac\<close>, \<open>length\<close> of a vector is
  \<open>norm_v\<close>, \<open>dot\<close> is \<open>dot\<close>, sum, difference and product with a scalar are \<open>add\<close>,
  \<open>subtract\<close> and \<open>multiply\<close>. The remainder \<open>%\<close> truncates the quotient towards zero, the
  conversion \<open>u32(e)\<close> of a float truncates towards zero and clamps to the range of the type,
  \<open>normalize\<close> divides by the length (no number when the length is zero), \<open>atan2\<close> is
  the angle of the point \<open>(x, y)\<close> in \<open>(-\<pi>, \<pi>]\<close> as for \<open>Math.atan2\<close>, and \<open>pow\<close> is
  \<open>pow_f32\<close>.
\<close>

definition trunc_real :: "real \<Rightarrow> int" where
  "trunc_real x = (if 0 \<le> x then \<lfloor>x\<rfloor> else \<lceil>x\<rceil>)"

definition fmod :: "real \<Rightarrow> real \<Rightarrow> real" where
  "fmod a b = a - b * of_int (trunc_real (a / b))"

definition u32 :: "real \<Rightarrow> nat" where
  "u32 e = min (nat (trunc_real e)) (2 ^ 32 - 1)"

definition clamp :: "real \<Rightarrow> real \<Rightarrow> real \<Rightarrow> real" where
  "clamp e low high = min (max e low) high"

definition normalize3 :: "Vector3D \<Rightarrow> Vector3D option" where
  "normalize3 v = (if norm_v v = 0 then None else Some (multiply v (1 / norm_v v)))"

definition hash :: "real \<times> real \<Rightarrow> real" where
  "hash p = frac (sin (fst p * 12.9898 + snd p * 78.233) * 43758.5453)"

definition random :: "real \<times> real \<Rightarrow> real" where
  "random seed = hash seed"

definition randomInUnitDisk :: "real \<times> real \<Rightarrow> real \<times> real" where
  "randomInUnitDisk seed =
     (let theta = random seed * 2 * pi_f32;
          r = sqrt (random (fst seed + 1, snd seed + 2))
      in (r * cos theta, r * sin theta))"

definition toSpherical :: "Vector3D \<Rightarrow> Vector3D" where
  "toSpherical p =
     (let r = norm_v p
      in if r = 0 then vec3 0 0 0
         else let theta = arccos (vz p / r); phi = atan2 (vy p) (vx p)
              in vec3 r theta phi)"

definition cross3 :: "Vector3D \<Rightarrow> Vector3D \<Rightarrow> Vector3D" where
  "cross3 a b = vec3 (vy a * vz b - vz a * vy b)
                     (vz a * vx b - vx a * vz b)
                     (vx a * vy b - vy a * vx b)"

definition setInitialConditions :: "Ray \<Rightarrow> Ray" where
  "setInitialConditions ray =
     (let c = cross3 (origin ray) (direction ray) in ray\<lparr>ray_h2 := dot c c\<rparr>)"

text \<open>
  \<open>applyEquation\<close> divides by \<open>pow(r2, 2.5)\<close>, which is zero when the new origin is the
  origin of space or so close to it that the power is too small for an \<open>f32\<close>; the result
  is then \<open>None\<close>, as in \<open>functionWithStep\<close>.
\<close>

definition applyEquation :: "Uniforms \<Rightarrow> Ray \<Rightarrow> real \<Rightarrow> Ray option" where
  "applyEquation U ray step =
     (let ray1 = ray\<lparr>origin := add (origin ray) (multiply (direction ray) step)\<rparr>;
          r2 = dot (origin ray1) (origin ray1)
      in if pow_f32 r2 2.5 = 0 then None
         else
           let accel = multiply (origin ray1)
                         (bhPotentialCoefficient U * ray_h2 ray1 / pow_f32 r2 2.5)
           in Some (ray1\<lparr>direction := add (direction ray1) (multiply accel step)\<rparr>))"

text \<open>
  \<open>mapDiskCoords\<close> divides by \<open>outerRadius - innerRadius\<close> once the radius has passed the
  range test; when the two radii are equal the quotient is no number and the result is
  \<open>None\<close>. The quotient \<open>phi / (2.0 * 3.14159)\<close> is the quotient of two \<open>f32\<close>, rounded by
  \<open>fl32\<close>; the remainder \<open>% 1.0\<close> of an \<open>f32\<close> is exact, and the rounding of \<open>x + 1.0\<close> does
  not change the outcome of the comparison with 0.5 that follows.
\<close>

definition mapDiskCoords :: "Uniforms \<Rightarrow> real \<Rightarrow> real \<Rightarrow> (real \<times> real) option" where
  "mapDiskCoords U r phi =
     (let innerRadius = diskInnerRadius U; outerRadius = diskOuterRadius U
      in if r < innerRadius \<or> r > outerRadius then Some (0, 1)
         else
           let x0 = fmod (fl32 (phi / (2 * pi_f32))) 1;
               x1 = (if x0 < 0 then x0 + 1 else x0);
               x2 = (if x1 < 0.5 then 0.49 else 0.51)
           in if outerRadius - innerRadius = 0 then None
              else
                let y0 = (r - innerRadius) / (outerRadius - innerRadius);
                    y1 = clamp y0 0 1
                in Some (x2, y1))"

definition mapSkyCoords :: "real \<Rightarrow> real \<Rightarrow> real \<times> real" where
  "mapSkyCoords theta phi =
     (let x0 = fmod (phi / (2 * pi_f32)) 1;
          x1 = (if x0 < 0 then x0 + 1 else x0);
          y0 = fmod (theta / pi_f32) 1;
          y1 = (if y0 < 0 then y0 + 1 else y0)
      in (x1, y1))"

definition mixColor :: "vec4 \<Rightarrow> vec4 \<Rightarrow> vec4" where
  "mixColor hitColor tintColor =
     (if alpha tintColor = 0 then hitColor
      else
        let r = (red hitColor + red tintColor) / 2;
            g = (green hitColor + green tintColor) / 2;
            b = (blue hitColor + blue tintColor) / 2
        in rgba (min r 1) (min g 1) (min b 1) 1)"

definition addColor :: "vec4 \<Rightarrow> vec4 \<Rightarrow> vec4" where
  "addColor hitColor tintColor =
     (if alpha tintColor = 0 then hitColor
      else
        let brightness = (max (max (red tintColor) (green tintColor)) (blue tintColor)
                          + min (min (red tintColor) (green tintColor)) (blue tintColor)) / 2;
            r = (1 - brightness) * red hitColor + max (red tintColor) 0 * 255 / 205;
            g = (1 - brightness) * green hitColor + max (green tintColor) 0 * 255 / 205;
            b = (1 - brightness) * blue hitColor + max (blue tintColor) 0 * 255 / 205
        in rgba (min r 1) (min g 1) (min b 1) 1)"

text \<open>
  A texture together with its sampler is the function from texture coordinates to the
  colour that \<open>textureSampleLevel\<close> returns at level 0.
\<close>

type_synonym texture = "real \<times> real \<Rightarrow> vec4"

text \<open>
  The block "mitigate seam" of \<open>traceRay\<close>: from the disk coordinates and the colour
  sampled there to the disk colour that is composited.
\<close>

definition mitigateSeam :: "texture \<Rightarrow> real \<times> real \<Rightarrow> vec4 \<Rightarrow> vec4" where
  "mitigateSeam diskTex diskCoords diskColor =
     (let diskSeamLowerBound = 0.52;
          diskSeamUpperBound = 0.99;
          seamRange = (diskSeamUpperBound - diskSeamLowerBound) / 3
      in if fst diskCoords > diskSeamLowerBound
            \<and> fst diskCoords < diskSeamLowerBound + seamRange
         then
           let sampleColor = diskTex (diskSeamLowerBound, snd diskCoords);
               diskColor1 = mixColor diskColor sampleColor;
               diskColor2 = sampleColor
           in diskColor2
         else if fst diskCoords > diskSeamLowerBound + seamRange
                 \<and> fst diskCoords < diskSeamLowerBound + 2 * seamRange
         then
           let sampleColor1 = diskTex (diskSeamLowerBound, snd diskCoords);
               sampleColor2 = diskTex (diskSeamUpperBound, snd diskCoords);
               sampleColor = mixColor sampleColor1 sampleColor2;
               diskColor1 = mixColor diskColor sampleColor;
               diskColor2 = sampleColor
           in diskColor2
         else if fst diskCoords > diskSeamLowerBound + 2 * seamRange
                 \<and> fst diskCoords < diskSeamUpperBound
         then
           let sampleColor = diskTex (diskSeamUpperBound, snd diskCoords);
               diskColor1 = mixColor diskColor sampleColor;
               diskColor2 = sampleColor
           in diskColor2
         else diskColor)"

text \<open>
  The binary search for the point where the ray enters the horizon. One round is
  \<open>bisectRound\<close>; \<open>bisect n\<close> runs \<open>n\<close> rounds. Each trial starts from \<open>prevPoint\<close> and from
  \<open>ray.direction\<close>, the velocity that \<open>applyEquation\<close> has already updated. The trial
  velocity is no number when \<open>pow(r2, 2.5)\<close> is zero at the trial point.
\<close>

record Bisection =
  stepLow :: real
  stepHigh :: real
  intersectionPoint :: Vector3D
  tempVelocity :: "Vector3D option"

definition bisectRound :: "Uniforms \<Rightarrow> Vector3D \<Rightarrow> Ray \<Rightarrow> Bisection \<Rightarrow> Bisection" where
  "bisectRound U prevPoint ray b =
     (let stepMid = (stepLow b + stepHigh b) / 2;
          point = add prevPoint (multiply (direction ray) stepMid);
          r2 = dot point point;
          velocity =
            (if pow_f32 r2 2.5 = 0 then None
             else Some (add (direction ray)
                          (multiply (multiply point
                             (bhPotentialCoefficient U * ray_h2 ray / pow_f32 r2 2.5)) stepMid)));
          distance = norm_v point;
          b1 = b\<lparr>intersectionPoint := point, tempVelocity := velocity\<rparr>
      in if distance < horizonRadius U then b1\<lparr>stepHigh := stepMid\<rparr>
         else b1\<lparr>stepLow := stepMid\<rparr>)"

fun bisect :: "nat \<Rightarrow> Uniforms \<Rightarrow> Vector3D \<Rightarrow> Ray \<Rightarrow> Bisection \<Rightarrow> Bisection" where
  "bisect 0 U prevPoint ray b = b"
| "bisect (Suc n) U prevPoint ray b = bisect n U prevPoint ray (bisectRound U prevPoint ray b)"

definition refineHorizon :: "Uniforms \<Rightarrow> Vector3D \<Rightarrow> Ray \<Rightarrow> real \<Rightarrow> Bisection" where
  "refineHorizon U prevPoint ray step =
     bisect 10 U prevPoint ray
       \<lparr>stepLow = 0, stepHigh = step, intersectionPoint = prevPoint,
        tempVelocity = Some (direction ray)\<rparr>"

text \<open>The state of the ray-tracing loop and one pass through its body.\<close>

record TraceState =
  ray :: Ray
  color :: vec4
  stop :: bool

definition traceStep :: "Uniforms \<Rightarrow> texture \<Rightarrow> texture \<Rightarrow> TraceState \<Rightarrow> TraceState option" where
  "traceStep U diskTex skyTex st =
     (let prevPoint = origin (ray st);
          prevSqrNorm = dot prevPoint prevPoint;
          step = (norm_v (origin (ray st)) / 30) * bhStepSize U
      in case applyEquation U (ray st) step of
           None \<Rightarrow> None
         | Some ray1 \<Rightarrow>
             let sqrNorm = dot (origin ray1) (origin ray1);
                 spherical = toSpherical (origin ray1);
                 theta = vy spherical;
                 phi = vz spherical
             in if sqrNorm < horizonRadius U * horizonRadius U
                   \<and> prevSqrNorm > horizonRadius U * horizonRadius U
                then
                  let point = intersectionPoint (refineHorizon U prevPoint ray1 step);
                      diskY = vy point;
                      diskSqrNorm = vx point * vx point + vz point * vz point
                  in if \<bar>diskY\<bar> < 0.1
                        \<and> diskSqrNorm \<ge> diskInnerRadius U * diskInnerRadius U
                        \<and> diskSqrNorm \<le> diskOuterRadius U * diskOuterRadius U
                     then
                       (case mapDiskCoords U (sqrt diskSqrNorm) (atan2 (vz point) (vx point)) of
                          None \<Rightarrow> None
                        | Some diskCoords \<Rightarrow>
                            Some (st\<lparr>ray := ray1, color := diskTex diskCoords, stop := True\<rparr>))
                     else
                       Some (st\<lparr>ray := ray1, color := addColor (rgba 0 0 0 1) (color st),
                                stop := True\<rparr>)
                else
                  let side = (if vy prevPoint > 0 then -1 else if vy prevPoint < 0 then 1 else 0);
                      diskSqrNorm = vx (origin ray1) * vx (origin ray1)
                                    + vz (origin ray1) * vz (origin ray1);
                      afterDisk =
                        (if vy (origin ray1) * side \<ge> 0
                            \<and> diskSqrNorm \<ge> diskInnerRadius U * diskInnerRadius U
                            \<and> diskSqrNorm \<le> diskOuterRadius U * diskOuterRadius U
                         then
                           (case mapDiskCoords U (sqrt diskSqrNorm) phi of
                              None \<Rightarrow> None
                            | Some diskCoords \<Rightarrow>
                                Some (addColor
                                        (mitigateSeam diskTex diskCoords (diskTex diskCoords))
                                        (color st)))
                         else Some (color st))
                  in case afterDisk of
                       None \<Rightarrow> None
                     | Some color1 \<Rightarrow>
                         if sqrNorm > skyRadius U * skyRadius U
                         then Some (st\<lparr>ray := ray1,
                                       color := addColor (skyTex (mapSkyCoords theta phi)) color1,
                                       stop := True\<rparr>)
                         else Some (st\<lparr>ray := ray1, color := color1\<rparr>))"

text \<open>
  The loop \<open>for (iter = 0; iter < maxIterations; iter++)\<close> with its \<open>break\<close> on \<open>stop\<close>: the
  first argument is the number of iterations that are left.
\<close>

fun traceLoop :: "nat \<Rightarrow> Uniforms \<Rightarrow> texture \<Rightarrow> texture \<Rightarrow> TraceState \<Rightarrow> TraceState option" where
  "traceLoop 0 U diskTex skyTex st = Some st"
| "traceLoop (Suc n) U diskTex skyTex st =
     (if stop st then Some st
      else case traceStep U diskTex skyTex st of
             None \<Rightarrow> None
           | Some st1 \<Rightarrow> traceLoop n U diskTex skyTex st1)"

text \<open>
  \<open>traceRay\<close> for the pixel \<open>pixelCoord\<close>. The result is \<open>None\<close> when a quotient of the
  function has denominator zero (width, height, the jitter decay, the length of a vector
  that is normalized, or one of the cases above).
\<close>

definition viewDirection :: "Uniforms \<Rightarrow> nat \<times> nat \<Rightarrow> Vector3D option" where
  "viewDirection U pixelCoord =
     (if uWidth U = 0 \<or> uHeight U = 0 \<or> 1 + uFrameCount U * 0.1 = 0 then None
      else
        let aspect = uWidth U / uHeight U;
            x = (real (fst pixelCoord) / uWidth U - 0.5) * camTanFov U;
            y = ((- (real (snd pixelCoord) / uHeight U) + 0.5) * aspect) * camTanFov U
        in case normalize3 (subtract (camLookAt U) (camPosition U)) of
             None \<Rightarrow> None
           | Some front \<Rightarrow>
               (case normalize3 (cross3 (camUp U) front) of
                  None \<Rightarrow> None
                | Some left \<Rightarrow>
                    let up = cross3 front left;
                        seed = (real (fst pixelCoord) + 5 * randomSeed U + 7 * uFrameCount U,
                                real (snd pixelCoord) + 3 * randomSeed U + 11 * uFrameCount U);
                        jitterScale1 = uJitterScale U / (1 + uFrameCount U * 0.1);
                        jitter = (fst (randomInUnitDisk seed) * jitterScale1,
                                  snd (randomInUnitDisk seed) * jitterScale1);
                        jitteredX = x + fst jitter * camTanFov U / uWidth U;
                        jitteredY = y + snd jitter * camTanFov U * aspect / uHeight U
                    in normalize3 (add (add (multiply left jitteredX) (multiply up jitteredY))
                                       front)))"

definition traceRay :: "Uniforms \<Rightarrow> texture \<Rightarrow> texture \<Rightarrow> nat \<times> nat \<Rightarrow> vec4 option" where
  "traceRay U diskTex skyTex pixelCoord =
     (case viewDirection U pixelCoord of
        None \<Rightarrow> None
      | Some viewDir \<Rightarrow>
          let ray0 = setInitialConditions
                       \<lparr>origin = camPosition U, direction = viewDir, ray_h2 = 0\<rparr>;
              st0 = \<lparr>ray = ray0, color = rgba 0 0 0 0, stop = False\<rparr>
          in map_option color (traceLoop (u32 (uMaxIterations U)) U diskTex skyTex st0))"

text \<open>
  The entry point \<open>main\<close> for the invocation \<open>global_id\<close>, given the colour \<open>rayColor\<close> that
  \<open>traceRay\<close> returned for it. The memory the kernel writes is the accumulation buffer, an
  array of floats, and the output texture; \<open>pixelIndex\<close> is computed in 32-bit unsigned
  arithmetic.
\<close>

record GpuMemory =
  accumulationData :: "nat \<Rightarrow> real"
  outputData :: "nat \<times> nat \<Rightarrow> vec4"

definition pixelIndexOf :: "Uniforms \<Rightarrow> nat \<times> nat \<Rightarrow> nat" where
  "pixelIndexOf U global_id =
     (((snd global_id * u32 (uWidth U)) mod 2 ^ 32 + fst global_id) mod 2 ^ 32 * 4) mod 2 ^ 32"

definition main :: "Uniforms \<Rightarrow> vec4 \<Rightarrow> nat \<times> nat \<Rightarrow> GpuMemory \<Rightarrow> GpuMemory" where
  "main U rayColor global_id mem =
     (if fst global_id \<ge> u32 (uWidth U) \<or> snd global_id \<ge> u32 (uHeight U) then mem
      else
        let pixelIndex = pixelIndexOf U global_id;
            acc = accumulationData mem
        in if uFrameCount U > 0 then
             let prevR = acc pixelIndex;
                 prevG = acc ((pixelIndex + 1) mod 2 ^ 32);
                 prevB = acc ((pixelIndex + 2) mod 2 ^ 32);
                 prevA = acc ((pixelIndex + 3) mod 2 ^ 32);
                 weight = uFrameCount U / (uFrameCount U + 1);
                 r = prevR * weight + red rayColor * (1 - weight);
                 g = prevG * weight + green rayColor * (1 - weight);
                 b = prevB * weight + blue rayColor * (1 - weight);
                 a = prevA * weight + alpha rayColor * (1 - weight)
             in \<lparr>accumulationData =
                   acc(pixelIndex := r, (pixelIndex + 1) mod 2 ^ 32 := g,
                       (pixelIndex + 2) mod 2 ^ 32 := b, (pixelIndex + 3) mod 2 ^ 32 := a),
                 outputData = (outputData mem)(global_id := rgba r g b a)\<rparr>
           else
             \<lparr>accumulationData =
                 acc(pixelIndex := red rayColor, (pixelIndex + 1) mod 2 ^ 32 := green rayColor,
                     (pixelIndex + 2) mod 2 ^ 32 := blue rayColor,
                     (pixelIndex + 3) mod 2 ^ 32 := alpha rayColor),
               outputData = (outputData mem)(global_id := rayColor)\<rparr>)"

text \<open>
  One dispatch: \<open>main\<close> runs once for every invocation of the grid of
  \<open>\<lceil>width / 16\<rceil> \<times> \<lceil>height / 16\<rceil>\<close> workgroups of 16 by 16. The invocations are taken one
  after the other; \<open>trace\<close> gives the colour that \<open>traceRay\<close> returns for each.
\<close>

definition dispatchGrid :: "nat \<Rightarrow> nat \<Rightarrow> (nat \<times> nat) list" where
  "dispatchGrid workgroupCountX workgroupCountY =
     List.product [0 ..< 16 * workgroupCountX] [0 ..< 16 * workgroupCountY]"

definition dispatchWorkgroups ::
  "nat \<Rightarrow> nat \<Rightarrow> Uniforms \<Rightarrow> (nat \<times> nat \<Rightarrow> vec4) \<Rightarrow> GpuMemory \<Rightarrow> GpuMemory" where
  "dispatchWorkgroups workgroupCountX workgroupCountY U trace mem =
     fold (\<lambda>global_id. main U (trace global_id) global_id)
          (dispatchGrid workgroupCountX workgroupCountY) mem"

section \<open>Frames (updateUniforms and processFrame in RayProcessor.ts)\<close>

text \<open>
  \<open>updateUniforms\<close> packs the \<open>Float32Array\<close> that is written to the uniform buffer; \<open>rnd\<close>
  is the number \<open>Math.random()\<close> returns. The disk and the sky are looked up in the list of
  hitables, but the radii written are the defaults whether they are found or not. The
  conversion of each value to an \<open>f32\<close> is not modelled.
\<close>

definition isDisk :: "hitable \<Rightarrow> bool" where
  "isDisk h = (case h of TexturedDisk a b \<Rightarrow> True | Disk a b \<Rightarrow> True | _ \<Rightarrow> False)"

definition isSky :: "hitable \<Rightarrow> bool" where
  "isSky h = (case h of Sky a b \<Rightarrow> True | _ \<Rightarrow> False)"

definition uniformData :: "real \<Rightarrow> nat \<Rightarrow> RayProcessor \<Rightarrow> real list" where
  "uniformData rnd rays rp =
     (let fovRadians = (fov (scene rp) * pi) / 180;
          tanFov = tan (fovRadians / 2);
          disk = find isDisk (hitables (scene rp));
          diskInner = (case disk of None \<Rightarrow> 2.6 | Some d \<Rightarrow> 2.6);
          diskOuter = (case disk of None \<Rightarrow> 12.0 | Some d \<Rightarrow> 12.0);
          sky = find isSky (hitables (scene rp));
          skyR = (case sky of None \<Rightarrow> 30.0 | Some d \<Rightarrow> 30.0);
          seed = rnd * 1000
      in [vx (cameraPosition (scene rp)), vy (cameraPosition (scene rp)),
          vz (cameraPosition (scene rp)), 0,
          vx (cameraLookAt (scene rp)), vy (cameraLookAt (scene rp)),
          vz (cameraLookAt (scene rp)), 0,
          vx (upVector (scene rp)), vy (upVector (scene rp)), vz (upVector (scene rp)), 0,
          fovRadians, tanFov, 0, 0,
          potentialCoefficient (schwarzschildEquation (scene rp)),
          stepSize (schwarzschildEquation (scene rp)),
          0, 0,
          real (width rp), real (height rp), real (frameCount rp), real rays,
          diskInner, diskOuter, skyR, 2.0,
          seed, maxIterations rp, jitterScale rp])"

text \<open>
  The kernel reads the buffer through the struct \<open>Uniforms\<close>. Its member \<open>camera\<close> has
  \<open>position\<close> at byte 0, \<open>lookAt\<close> at byte 16 and \<open>up\<close> at byte 32; \<open>up\<close> is a \<open>vec3<f32>\<close> of
  12 bytes, so \<open>fov\<close> follows at byte 44 and \<open>tanFov\<close> at byte 48: the kernel's \<open>camera.fov\<close>
  is the padding after the up vector and its \<open>camera.tanFov\<close> is the field of view in
  radians. \<open>blackHole\<close> starts at byte 64, \<open>width\<close> at byte 80, and the fields after it
  follow one another. \<open>raysPerFrame\<close> is declared \<open>u32\<close>: the kernel would read the bits of
  the float that was written. The float at index \<open>i\<close> of the array is at byte \<open>4 * i\<close>.
\<close>

definition readUniforms :: "real list \<Rightarrow> Uniforms" where
  "readUniforms d =
     \<lparr>camPosition = vec3 (d ! 0) (d ! 1) (d ! 2),
      camLookAt = vec3 (d ! 4) (d ! 5) (d ! 6),
      camUp = vec3 (d ! 8) (d ! 9) (d ! 10),
      camFov = d ! 11,
      camTanFov = d ! 12,
      bhPotentialCoefficient = d ! 16,
      bhStepSize = d ! 17,
      uWidth = d ! 20,
      uHeight = d ! 21,
      uFrameCount = d ! 22,
      raysPerFrame = f32_bits (d ! 23),
      diskInnerRadius = d ! 24,
      diskOuterRadius = d ! 25,
      skyRadius = d ! 26,
      horizonRadius = d ! 27,
      randomSeed = d ! 28,
      uMaxIterations = d ! 29,
      uJitterScale = d ! 30\<rparr>"

definition updateUniforms :: "real \<Rightarrow> nat \<Rightarrow> RayProcessor \<Rightarrow> Uniforms" where
  "updateUniforms rnd rays rp = readUniforms (uniformData rnd rays rp)"

text \<open>
  \<open>processFrame\<close>: the uniforms are written, the kernel is dispatched, the frame is submitted
  and the frame counter is incremented. \<open>tracer U\<close> is the colour \<open>traceRay\<close> returns for
  each pixel under the uniforms \<open>U\<close>. The result is the new state and the number of rays.
\<close>

definition processFrame ::
  "real \<Rightarrow> nat \<Rightarrow> (Uniforms \<Rightarrow> nat \<times> nat \<Rightarrow> vec4) \<Rightarrow> RayProcessor \<times> GpuMemory
     \<Rightarrow> (RayProcessor \<times> GpuMemory) \<times> nat" where
  "processFrame rnd rays tracer s =
     (let rp = fst s;
          U = updateUniforms rnd rays rp;
          workgroupCountX = nat \<lceil>real (width rp) / 16\<rceil>;
          workgroupCountY = nat \<lceil>real (height rp) / 16\<rceil>;
          mem = dispatchWorkgroups workgroupCountX workgroupCountY U (tracer U) (snd s);
          rp1 = rp\<lparr>gpuLog := gpuLog rp @ [Submit (uniformBindGroup rp)]\<rparr>;
          rp2 = rp1\<lparr>frameCount := frameCount rp1 + 1\<rparr>
      in ((rp2, mem), width rp * height rp))"

text \<open>
  The frame loop of App.ts calls \<open>processFrame\<close> once per animation frame; \<open>renderFrames\<close>
  runs one frame for every random number of the list.
\<close>

fun renderFrames ::
  "real list \<Rightarrow> nat \<Rightarrow> (Uniforms \<Rightarrow> nat \<times> nat \<Rightarrow> vec4) \<Rightarrow> RayProcessor \<times> GpuMemory
     \<Rightarrow> RayProcessor \<times> GpuMemory" where
  "renderFrames [] rays tracer s = s"
| "renderFrames (rnd # rnds) rays tracer s =
     renderFrames rnds rays tracer (fst (processFrame rnd rays tracer s))"


section \<open>The specification's formulas\<close>

text \<open>
  The disk mapping in the words of the specification, with the angle divided by \<open>2\<pi>\<close>:
  out-of-range radii map to \<open>(0, 1)\<close>; otherwise \<open>u\<close> is 0.49 when \<open>(\<phi> / 2\<pi>) mod 1\<close> is
  below 0.5 and 0.51 otherwise, and \<open>v = clamp((r - rInner) / (rOuter - rInner), 0, 1)\<close>.
\<close>

definition mapDiskCoords_spec :: "real \<Rightarrow> real \<Rightarrow> real \<Rightarrow> real \<Rightarrow> real \<times> real" where
  "mapDiskCoords_spec rInner rOuter r phi =
     (if r < rInner \<or> r > rOuter then (0, 1)
      else (if frac (phi / (2 * pi)) < 0.5 then 0.49 else 0.51,
            clamp ((r - rInner) / (rOuter - rInner)) 0 1))"


text \<open>
  The additive compositing in the words of the specification, for a new sample \<open>S\<close> and an
  existing colour \<open>C\<close>: \<open>C\<close> when \<open>S.a = 0\<close>; otherwise, with
  \<open>b = (max(S.rgb) + min(S.rgb)) / 2\<close>, each channel is
  \<open>clamp((1 - b) \<sqdot> C.channel + max(S.channel, 0) \<sqdot> 255 / 205, 0, 255)\<close> and alpha is 255.
  The formula is written for channels from 0 to 255 with \<open>b\<close> between 0 and 1; \<open>full\<close> is the
  value of a full channel on the scale of the function it is compared with, 1 for the
  kernel and 255 for \<open>Utils.addColor\<close>, so that the clamp is to \<open>[0, full]\<close>, alpha is \<open>full\<close>
  and \<open>b\<close> is taken from the channels divided by \<open>full\<close>.
\<close>

definition brightness :: "vec4 \<Rightarrow> real" where
  "brightness c =
     (max (max (red c) (green c)) (blue c) + min (min (red c) (green c)) (blue c)) / 2"





text \<open>
  The accumulation in the words of the specification: with prior accumulator \<open>A\<close>, ray
  colour \<open>R\<close> and frame \<open>F\<close>, the value written is \<open>R\<close> when \<open>F = 0\<close> and
  \<open>A \<sqdot> w + R \<sqdot> (1 - w)\<close> with \<open>w = F / (F + 1)\<close> otherwise. \<open>channel k\<close> is the component of
  a colour that is stored at offset \<open>k\<close> of a pixel, \<open>mean\<close> the arithmetic mean, and
  \<open>frameColors\<close> the ray colours \<open>R\<^sub>0, R\<^sub>1, \<dots>\<close> of a pixel in successive frames: frame \<open>i\<close>
  is traced under the uniforms packed with frame counter \<open>i\<close> and the \<open>i\<close>-th random number.
\<close>

definition blend :: "real \<Rightarrow> real \<Rightarrow> real \<Rightarrow> real" where
  "blend F A R = (if F > 0 then A * (F / (F + 1)) + R * (1 - F / (F + 1)) else R)"

definition channel :: "nat \<Rightarrow> vec4 \<Rightarrow> real" where
  "channel k c =
     (if k = 0 then red c else if k = 1 then green c else if k = 2 then blue c else alpha c)"

definition mean :: "real list \<Rightarrow> real" where
  "mean xs = sum_list xs / real (length xs)"

definition frameColors ::
  "real list \<Rightarrow> nat \<Rightarrow> (Uniforms \<Rightarrow> nat \<times> nat \<Rightarrow> vec4) \<Rightarrow> RayProcessor \<Rightarrow> nat \<times> nat
     \<Rightarrow> vec4 list" where
  "frameColors rnds rays tracer rp p =
     map (\<lambda>ir. tracer (updateUniforms (snd ir) rays (rp\<lparr>frameCount := fst ir\<rparr>)) p)
         (enumerate 0 rnds)"


section \<open>Example inputs\<close>




text \<open>
  The flat-space scene: the application's scene with a given list of hitables, no
  potential (\<open>k = 0\<close>) and the step size 0.16, loaded into a processor of 256 by 256
  pixels with the jitter switched off. The ray of the centre pixel points from the camera
  to the origin; along it the position is a multiple \<open>c\<close> of the camera position.
\<close>

definition flatProcessor :: "hitable list \<Rightarrow> real \<Rightarrow> RayProcessor" where
  "flatProcessor hs iterations =
     setJitterScale 0
       (setMaxIterations iterations
          (setScene (appScene\<lparr>hitables := hs,
                       schwarzschildEquation :=
                         \<lparr>h2 = 0, stepSize = 0.16, potentialCoefficient = 0\<rparr>\<rparr>)
                    (newRayProcessor 256 256 appScene)))"

definition centralDirection :: Vector3D where
  "centralDirection = multiply (vec3 0 (- 3) 20) (1 / sqrt 409)"

definition centralRay :: "real \<Rightarrow> Ray" where
  "centralRay c = \<lparr>origin = multiply (vec3 0 3 (- 20)) c, direction = centralDirection, ray_h2 = 0\<rparr>"

definition centralState :: "real \<Rightarrow> TraceState" where
  "centralState c = \<lparr>ray = centralRay c, color = rgba 0 0 0 0, stop = False\<rparr>"

definition fallenState :: "real \<Rightarrow> TraceState" where
  "fallenState c = \<lparr>ray = centralRay c, color = rgba 0 0 0 1, stop = True\<rparr>"

section \<open>Theorems\<close>

lemma norm2_nonneg: "0 \<le> norm2 u"
  by (simp add: norm2_def)

lemma norm2_zero_iff: "norm2 u = 0 \<longleftrightarrow> vx u = 0 \<and> vy u = 0 \<and> vz u = 0"
proof -
  have "vx u * vx u + vy u * vy u + vz u * vz u = 0
        \<longleftrightarrow> vx u = 0 \<and> vy u = 0 \<and> vz u = 0"
    by (simp add: add_nonneg_eq_0_iff)
  then show ?thesis by (simp add: norm2_def)
qed

lemma norm_v_zero_iff: "norm_v u = 0 \<longleftrightarrow> norm2 u = 0"
  by (simp add: norm_v_def)

lemma vec3_eta: "vec3 (vx u) (vy u) (vz u) = u"
  by (simp add: vec3_def)

lemma updateUniforms_record:
  "updateUniforms rnd rays rp =
     \<lparr>camPosition = cameraPosition (scene rp),
      camLookAt = cameraLookAt (scene rp),
      camUp = upVector (scene rp),
      camFov = 0,
      camTanFov = fov (scene rp) * pi / 180,
      bhPotentialCoefficient = potentialCoefficient (schwarzschildEquation (scene rp)),
      bhStepSize = stepSize (schwarzschildEquation (scene rp)),
      uWidth = real (width rp),
      uHeight = real (height rp),
      uFrameCount = real (frameCount rp),
      raysPerFrame = f32_bits (real rays),
      diskInnerRadius = 2.6,
      diskOuterRadius = 12,
      skyRadius = 30,
      horizonRadius = 2,
      randomSeed = rnd * 1000,
      uMaxIterations = maxIterations rp,
      uJitterScale = jitterScale rp\<rparr>"
  by (simp add: updateUniforms_def readUniforms_def uniformData_def Let_def vec3_eta
           split: option.splits)

lemma appScene_fields:
  "cameraPosition appScene = vec3 0 3 (- 20)"
  "cameraLookAt appScene = vec3 0 0 0"
  "upVector appScene = vec3 (- 0.3) 1 0"
  "fov appScene = 80"
  "hitables appScene = []"
  "schwarzschildEquation appScene = \<lparr>h2 = 0, stepSize = 0.16, potentialCoefficient = - 1.5\<rparr>"
  by (simp_all add: appScene_def newScene_def newSchwarzschildBlackHoleEquation_def Let_def)

subsection \<open>Rounding to a float\<close>

text \<open>
  \<open>round_float\<close> at a number whose binary exponent is known: the number is scaled to an
  integer range, rounded to the nearest integer and scaled back.
\<close>

lemma floor_log2_eq:
  assumes "2 powi e \<le> \<bar>x\<bar>" "\<bar>x\<bar> < 2 powi (e + 1)"
  shows "\<lfloor>log 2 \<bar>x\<bar>\<rfloor> = e"
proof -
  have "(0::real) < 2 powi e" by simp
  with assms(1) have pos: "0 < \<bar>x\<bar>" by linarith
  have a: "(2::real) powr real_of_int e = 2 powi e"
    using powr_real_of_int' [of 2 e] by simp
  have b: "(2::real) powr real_of_int (e + 1) = 2 powi (e + 1)"
    using powr_real_of_int' [of 2 "e + 1"] by simp
  have "\<lfloor>log 2 \<bar>x\<bar>\<rfloor> = e \<longleftrightarrow> 2 powr real_of_int e \<le> \<bar>x\<bar> \<and> \<bar>x\<bar> < 2 powr real_of_int (e + 1)"
    using pos by (intro floor_log_eq_powr_iff) simp_all
  then show ?thesis
    unfolding a b using assms by simp
qed

lemma round_float_exponent:
  assumes "2 powi e \<le> \<bar>x\<bar>" "\<bar>x\<bar> < 2 powi (e + 1)" "emin \<le> e"
  shows "round_float p emin x
           = of_int (round_even (x / 2 powi (e - int p + 1))) * 2 powi (e - int p + 1)"
proof -
  have "(0::real) < 2 powi e" by simp
  with assms(1) have "0 < \<bar>x\<bar>" by linarith
  then have "x \<noteq> 0" by simp
  moreover have "max \<lfloor>log 2 \<bar>x\<bar>\<rfloor> emin = e"
    using floor_log2_eq [OF assms(1,2)] assms(3) by simp
  ultimately show ?thesis
    by (simp add: round_float_def Let_def)
qed

lemma powi_neg: "(2::real) powi (- int k) = 1 / 2 ^ k"
  by (simp add: power_int_minus field_simps)

text \<open>Numbers below one, with \<open>2\<^sup>-\<^sup>m\<^sup>-\<^sup>1 \<le> |x| < 2\<^sup>-\<^sup>m\<close>.\<close>

lemma round_float_small:
  assumes "1 / 2 ^ Suc m \<le> \<bar>x\<bar>" "\<bar>x\<bar> < 1 / 2 ^ m" "emin \<le> - int (Suc m)" "0 < p"
  shows "round_float p emin x = of_int (round_even (x * 2 ^ (m + p))) / 2 ^ (m + p)"
proof -
  have e1: "(2::real) powi (- int (Suc m)) = 1 / 2 ^ Suc m"
    by (rule powi_neg)
  have "- int (Suc m) + 1 = - int m" by simp
  then have e2: "(2::real) powi (- int (Suc m) + 1) = 1 / 2 ^ m"
    by (simp only: powi_neg)
  have q: "- int (Suc m) - int p + 1 = - int (m + p)" by simp
  have e3: "(2::real) powi (- int (m + p)) = 1 / 2 ^ (m + p)"
    by (rule powi_neg)
  have "round_float p emin x
          = of_int (round_even (x / 2 powi (- int (Suc m) - int p + 1)))
              * 2 powi (- int (Suc m) - int p + 1)"
  proof (rule round_float_exponent)
    show "2 powi (- int (Suc m)) \<le> \<bar>x\<bar>" unfolding e1 by (rule assms(1))
    show "\<bar>x\<bar> < 2 powi (- int (Suc m) + 1)" unfolding e2 by (rule assms(2))
    show "emin \<le> - int (Suc m)" by (rule assms(3))
  qed
  then show ?thesis unfolding q e3 by simp
qed

text \<open>Numbers from one on, with \<open>2\<^sup>m \<le> |x| < 2\<^sup>m\<^sup>+\<^sup>1\<close>.\<close>

lemma round_float_big:
  assumes "2 ^ m \<le> \<bar>x\<bar>" "\<bar>x\<bar> < 2 ^ Suc m" "emin \<le> int m" "m < p"
  shows "round_float p emin x = of_int (round_even (x * 2 ^ (p - 1 - m))) / 2 ^ (p - 1 - m)"
proof -
  have e1: "(2::real) powi (int m) = 2 ^ m" by simp
  have e2: "(2::real) powi (int m + 1) = 2 ^ Suc m"
    using power_int_of_nat [of "2::real" "Suc m"] by (simp add: add.commute)
  have q: "int m - int p + 1 = - int (p - 1 - m)" using assms(4) by simp
  have e3: "(2::real) powi (- int (p - 1 - m)) = 1 / 2 ^ (p - 1 - m)"
    by (rule powi_neg)
  have "round_float p emin x
          = of_int (round_even (x / 2 powi (int m - int p + 1))) * 2 powi (int m - int p + 1)"
  proof (rule round_float_exponent)
    show "2 powi (int m) \<le> \<bar>x\<bar>" unfolding e1 by (rule assms(1))
    show "\<bar>x\<bar> < 2 powi (int m + 1)" unfolding e2 by (rule assms(2))
    show "emin \<le> int m" by (rule assms(3))
  qed
  then show ?thesis unfolding q e3 by simp
qed

lemma round_even_int: "round_even (of_int n) = n"
  by (simp add: round_even_def)

lemma fl32_half: "fl32 (1 / 2) = 1 / 2"
proof -
  have "round_float 24 (- 126) (1 / 2) = of_int (round_even ((1 / 2) * 2 ^ (0 + 24))) / 2 ^ (0 + 24)"
    by (rule round_float_small) simp_all
  also have "((1 / 2) * 2 ^ (0 + 24) :: real) = of_int 8388608" by simp
  finally show ?thesis unfolding round_even_int by (simp add: fl32_def)
qed

lemma fl32_one_over_2pi: "fl32 (1 / (2 * pi_f32)) = 2670179 / 16777216"
proof -
  have "round_float 24 (- 126) (1 / (2 * pi_f32))
          = of_int (round_even ((1 / (2 * pi_f32)) * 2 ^ (2 + 24))) / 2 ^ (2 + 24)"
    by (rule round_float_small) (simp_all add: pi_f32_def)
  then show ?thesis
    by (simp add: fl32_def pi_f32_def round_even_def Let_def)
qed

subsection \<open>Vector3D\<close>

text \<open>
  C6 (as amended). Normalizing a vector of length zero returns the zero vector and
  \<open>normalize\<close> raises no error on any vector; dividing a vector by the scalar zero does not
  return a vector: it raises the error "Cannot divide by zero".
\<close>

theorem normalize_zero_divide_raises:
  "(norm_v v = 0 \<longrightarrow> normalize_v v = Inr (vec3 0 0 0))
   \<and> (\<exists>w. normalize_v v = Inr w)
   \<and> divide_v v 0 = Inl DivideByZero"
  by (simp add: normalize_v_def divide_v_def Let_def)

theorem normalize_zero_divide_raises_witness:
  "norm_v (vec3 0 0 0) = 0 \<and> normalize_v (vec3 0 0 0) = Inr (vec3 0 0 0)
   \<and> divide_v (vec3 0 0 0) 0 = Inl DivideByZero"
  using normalize_zero_divide_raises [of "vec3 0 0 0"]
  by (simp add: norm_v_def norm2_def vec3_def)

text \<open>
  C6 as stated fails: dividing the vector (1, 2, 3) by zero is an error, not the zero
  vector.
\<close>

theorem divide_by_zero_counterexample:
  "divide_v (vec3 1 2 3) 0 \<noteq> Inr (vec3 0 0 0) \<and> divide_v (vec3 1 2 3) 0 = Inl DivideByZero"
  by (simp add: divide_v_def)

subsection \<open>Reset after a mutation\<close>

lemma frameCount_reset: "frameCount (reset rp) = 0"
  by (simp add: reset_def)

lemma setScene_resets: "frameCount (setScene sc rp) = 0"
  by (simp add: setScene_def reset_def)

lemma loadDiskTexture_resets:
  "loadDiskTexture img ctx rp = Inr rp' \<Longrightarrow> frameCount rp' = 0"
  by (auto simp: loadDiskTexture_def reset_def Let_def split: option.splits if_splits)

lemma loadSkyTexture_resets:
  "loadSkyTexture img rp = Inr rp' \<Longrightarrow> frameCount rp' = 0"
  by (auto simp: loadSkyTexture_def reset_def Let_def split: option.splits)

text \<open>
  C1 at the failing input. After three frames, \<open>setMaxIterations(25000)\<close> and
  \<open>setJitterScale(5)\<close> store the new value and leave the frame counter at 3; of the five
  mutators only \<open>setScene\<close>, \<open>loadDiskTexture\<close> and \<open>loadSkyTexture\<close> reset it.
\<close>

theorem setters_keep_frameCount:
  "frameCount (setMaxIterations 25000 ((newRayProcessor 256 256 appScene)\<lparr>frameCount := 3\<rparr>)) = 3
   \<and> frameCount (setJitterScale 5 ((newRayProcessor 256 256 appScene)\<lparr>frameCount := 3\<rparr>)) = 3
   \<and> frameCount (setScene appScene ((newRayProcessor 256 256 appScene)\<lparr>frameCount := 3\<rparr>)) = 0"
  by (simp add: setMaxIterations_def setJitterScale_def setScene_def reset_def)

subsection \<open>Replacing a texture\<close>

text \<open>
  C5 (as amended). A successful \<open>loadDiskTexture\<close> or \<open>loadSkyTexture\<close> makes exactly four
  calls on the device, in this order: it creates the new texture, copies the image into it,
  destroys the old texture, and creates the bind group that refers to the new texture. The
  old texture is thus destroyed after the new texture is complete and before the
  replacement bind group exists; that bind group is the one installed when the operation
  returns, and no frame is submitted in between.
\<close>

theorem texture_replacement_order:
  "(loadDiskTexture img ctx rp = Inr rp' \<longrightarrow>
      gpuLog rp' = gpuLog rp @
        [CreateTexture (nextHandle rp), CopyExternalImageToTexture (nextHandle rp),
         DestroyTexture (diskTexture rp), CreateBindGroup (uniformBindGroup rp')]
      \<and> diskTexture rp' = nextHandle rp
      \<and> uniformBindGroup rp' = (uniformBindGroup rp')\<lparr>bgDiskTexture := nextHandle rp\<rparr>
      \<and> uniformBindGroup rp' = createBindGroup rp')
   \<and> (loadSkyTexture img rq = Inr rq' \<longrightarrow>
      gpuLog rq' = gpuLog rq @
        [CreateTexture (nextHandle rq), CopyExternalImageToTexture (nextHandle rq),
         DestroyTexture (skyTexture rq), CreateBindGroup (uniformBindGroup rq')]
      \<and> skyTexture rq' = nextHandle rq
      \<and> uniformBindGroup rq' = (uniformBindGroup rq')\<lparr>bgSkyTexture := nextHandle rq\<rparr>
      \<and> uniformBindGroup rq' = createBindGroup rq')"
  by (auto simp: loadDiskTexture_def loadSkyTexture_def reset_def createBindGroup_def Let_def
           split: option.splits if_splits)


theorem texture_replacement_order_witness:
  "loadDiskTexture (Some \<lparr>imgWidth = 8, imgHeight = 8\<rparr>) True (newRayProcessor 256 256 appScene)
     = Inr (projr (loadDiskTexture (Some \<lparr>imgWidth = 8, imgHeight = 8\<rparr>) True
                     (newRayProcessor 256 256 appScene)))
   \<and> gpuLog (projr (loadDiskTexture (Some \<lparr>imgWidth = 8, imgHeight = 8\<rparr>) True
                     (newRayProcessor 256 256 appScene)))
     = gpuLog (newRayProcessor 256 256 appScene) @
        [CreateTexture 4, CopyExternalImageToTexture 4, DestroyTexture 2,
         CreateBindGroup \<lparr>bgOutputTexture = 0, bgDiskTexture = 4, bgSkyTexture = 3,
                          bgAccumulationBuffer = 1\<rparr>]
   \<and> loadSkyTexture (Some \<lparr>imgWidth = 8, imgHeight = 8\<rparr>) (newRayProcessor 256 256 appScene)
     = Inr (projr (loadSkyTexture (Some \<lparr>imgWidth = 8, imgHeight = 8\<rparr>)
                     (newRayProcessor 256 256 appScene)))
   \<and> gpuLog (projr (loadSkyTexture (Some \<lparr>imgWidth = 8, imgHeight = 8\<rparr>)
                     (newRayProcessor 256 256 appScene)))
     = gpuLog (newRayProcessor 256 256 appScene) @
        [CreateTexture 4, CopyExternalImageToTexture 4, DestroyTexture 3,
         CreateBindGroup \<lparr>bgOutputTexture = 0, bgDiskTexture = 2, bgSkyTexture = 4,
                          bgAccumulationBuffer = 1\<rparr>]"
proof -
  let ?img = "Some \<lparr>imgWidth = 8, imgHeight = 8\<rparr>"
  let ?rp = "newRayProcessor 256 256 appScene"
  have d: "loadDiskTexture ?img True ?rp = Inr (projr (loadDiskTexture ?img True ?rp))"
    by (simp add: loadDiskTexture_def Let_def)
  have s: "loadSkyTexture ?img ?rp = Inr (projr (loadSkyTexture ?img ?rp))"
    by (simp add: loadSkyTexture_def Let_def)
  from texture_replacement_order
         [of ?img True ?rp "projr (loadDiskTexture ?img True ?rp)"
             ?rp "projr (loadSkyTexture ?img ?rp)"] d s
  have "gpuLog (projr (loadDiskTexture ?img True ?rp)) = gpuLog ?rp @
          [CreateTexture (nextHandle ?rp), CopyExternalImageToTexture (nextHandle ?rp),
           DestroyTexture (diskTexture ?rp),
           CreateBindGroup (uniformBindGroup (projr (loadDiskTexture ?img True ?rp)))]"
    and "uniformBindGroup (projr (loadDiskTexture ?img True ?rp))
           = createBindGroup (projr (loadDiskTexture ?img True ?rp))"
    and "gpuLog (projr (loadSkyTexture ?img ?rp)) = gpuLog ?rp @
          [CreateTexture (nextHandle ?rp), CopyExternalImageToTexture (nextHandle ?rp),
           DestroyTexture (skyTexture ?rp),
           CreateBindGroup (uniformBindGroup (projr (loadSkyTexture ?img ?rp)))]"
    and "uniformBindGroup (projr (loadSkyTexture ?img ?rp))
           = createBindGroup (projr (loadSkyTexture ?img ?rp))"
    by blast+
  moreover have "createBindGroup (projr (loadDiskTexture ?img True ?rp))
      = \<lparr>bgOutputTexture = 0, bgDiskTexture = 4, bgSkyTexture = 3, bgAccumulationBuffer = 1\<rparr>"
    by (simp add: loadDiskTexture_def Let_def createBindGroup_def reset_def newRayProcessor_def)
  moreover have "createBindGroup (projr (loadSkyTexture ?img ?rp))
      = \<lparr>bgOutputTexture = 0, bgDiskTexture = 2, bgSkyTexture = 4, bgAccumulationBuffer = 1\<rparr>"
    by (simp add: loadSkyTexture_def Let_def createBindGroup_def reset_def newRayProcessor_def)
  moreover have "nextHandle ?rp = 4" "diskTexture ?rp = 2" "skyTexture ?rp = 3"
    by (simp_all add: newRayProcessor_def)
  ultimately show ?thesis using d s by simp
qed

text \<open>
  C5 as stated fails. On the processor as constructed (placeholder disk texture 2, sky
  texture 3), a successful load destroys the old texture before the replacement bind group
  is created, not after it.
\<close>

theorem destroy_after_rebind_counterexample:
  "\<not> happens_before
        (CreateBindGroup \<lparr>bgOutputTexture = 0, bgDiskTexture = 4, bgSkyTexture = 3,
                          bgAccumulationBuffer = 1\<rparr>)
        (DestroyTexture 2)
        (gpuLog (projr (loadDiskTexture (Some \<lparr>imgWidth = 8, imgHeight = 8\<rparr>) True
                          (newRayProcessor 256 256 appScene))))
   \<and> happens_before
        (DestroyTexture 2)
        (CreateBindGroup \<lparr>bgOutputTexture = 0, bgDiskTexture = 4, bgSkyTexture = 3,
                          bgAccumulationBuffer = 1\<rparr>)
        (gpuLog (projr (loadDiskTexture (Some \<lparr>imgWidth = 8, imgHeight = 8\<rparr>) True
                          (newRayProcessor 256 256 appScene))))
   \<and> \<not> happens_before
        (CreateBindGroup \<lparr>bgOutputTexture = 0, bgDiskTexture = 2, bgSkyTexture = 4,
                          bgAccumulationBuffer = 1\<rparr>)
        (DestroyTexture 3)
        (gpuLog (projr (loadSkyTexture (Some \<lparr>imgWidth = 8, imgHeight = 8\<rparr>)
                          (newRayProcessor 256 256 appScene))))
   \<and> uniformBindGroup (projr (loadDiskTexture (Some \<lparr>imgWidth = 8, imgHeight = 8\<rparr>) True
                          (newRayProcessor 256 256 appScene)))
       = \<lparr>bgOutputTexture = 0, bgDiskTexture = 4, bgSkyTexture = 3, bgAccumulationBuffer = 1\<rparr>"
  by (simp add: loadDiskTexture_def loadSkyTexture_def Let_def createBindGroup_def reset_def
                newRayProcessor_def happens_before_def)


subsection \<open>A lower bound for \<open>\<pi>\<close>\<close>

lemma arctan_lower_poly:
  assumes "0 \<le> x"
  shows "x - x^3 / 3 + x^5 / 5 - x^7 / 7 \<le> arctan x"
proof -
  define g where "g t = arctan t - (t - t^3 / 3 + t^5 / 5 - t^7 / 7)" for t :: real
  have d: "\<exists>y. DERIV g t :> y \<and> 0 \<le> y" for t
  proof -
    have "DERIV g t :> inverse (1 + t\<^sup>2) - (1 - t^2 + t^4 - t^6)"
      unfolding g_def
      by (auto intro!: derivative_eq_intros simp: field_simps)
    moreover have "inverse (1 + t\<^sup>2) - (1 - t^2 + t^4 - t^6) = t^8 / (1 + t\<^sup>2)"
    proof -
      have "1 + t\<^sup>2 \<noteq> 0"
        by (metis add_nonneg_eq_0_iff zero_le_power2 zero_neq_one zero_le_one)
      then show ?thesis
        by (simp add: field_simps power2_eq_square)
           (simp add: algebra_simps power_numeral_reduce)
    qed
    moreover have "0 \<le> t^8 / (1 + t\<^sup>2)"
      by (intro divide_nonneg_nonneg) (auto simp: add_nonneg_nonneg)
    ultimately show ?thesis by metis
  qed
  have "g 0 \<le> g x"
    by (rule DERIV_nonneg_imp_nondecreasing [OF assms]) (rule d)
  then show ?thesis by (simp add: g_def)
qed

lemma arctan_le_self_nonneg:
  assumes "0 \<le> x"
  shows "arctan x \<le> x"
proof -
  define g where "g t = t - arctan t" for t :: real
  have d: "\<exists>y. DERIV g t :> y \<and> 0 \<le> y" for t
  proof -
    have "DERIV g t :> 1 - inverse (1 + t\<^sup>2)"
      unfolding g_def by (auto intro!: derivative_eq_intros)
    moreover have "inverse (1 + t\<^sup>2) \<le> 1"
      by (rule inverse_le_1_iff [THEN iffD2]) simp
    ultimately show ?thesis by (metis diff_ge_0_iff_ge)
  qed
  have "g 0 \<le> g x"
    by (rule DERIV_nonneg_imp_nondecreasing [OF assms]) (rule d)
  then show ?thesis by (simp add: g_def)
qed

lemma pi_f32_less_pi: "pi_f32 < pi"
proof -
  have "(1/5::real) - (1/5)^3 / 3 + (1/5)^5 / 5 - (1/5)^7 / 7 \<le> arctan (1/5)"
    by (rule arctan_lower_poly) simp
  then have a: "1/5 - 1/375 + 1/15625 - 1/546875 \<le> arctan (1/5 :: real)"
    by (simp add: power_numeral_reduce)
  have b: "arctan (1/239 :: real) \<le> 1/239"
    by (rule arctan_le_self_nonneg) simp
  have "pi = 16 * arctan (1/5) - 4 * arctan (1/239)"
    using machin by simp
  with a b have "(823549 / 262144 :: real) < pi" by linarith
  then show ?thesis by (simp add: pi_f32_def)
qed

subsection \<open>The disk mapping\<close>

lemma wrap_is_frac:
  "(if fmod t 1 < 0 then fmod t 1 + 1 else fmod t 1) = frac t"
proof (cases "0 \<le> t")
  case True
  then have "fmod t 1 = frac t" by (simp add: fmod_def trunc_real_def frac_def)
  moreover have "\<not> frac t < 0" by (simp add: not_less)
  ultimately show ?thesis by simp
next
  case False
  then have f: "fmod t 1 = t - of_int \<lceil>t\<rceil>" by (simp add: fmod_def trunc_real_def)
  show ?thesis
  proof (cases "t \<in> \<int>")
    case True
    then have "of_int \<lceil>t\<rceil> = t" by (metis Ints_cases ceiling_of_int)
    with f True show ?thesis by simp
  next
    case False
    have "t \<noteq> of_int \<lfloor>t\<rfloor>"
    proof
      assume e: "t = of_int \<lfloor>t\<rfloor>"
      have "(of_int \<lfloor>t\<rfloor> :: real) \<in> \<int>" by (rule Ints_of_int)
      with e False show False by simp
    qed
    then have c: "\<lceil>t\<rceil> = \<lfloor>t\<rfloor> + 1" by (simp add: ceiling_altdef)
    have "t \<le> of_int \<lceil>t\<rceil>" by (rule le_of_int_ceiling)
    moreover have "t \<noteq> of_int \<lceil>t\<rceil>"
    proof
      assume e: "t = of_int \<lceil>t\<rceil>"
      have "(of_int \<lceil>t\<rceil> :: real) \<in> \<int>" by (rule Ints_of_int)
      with e False show False by simp
    qed
    ultimately have "t < of_int \<lceil>t\<rceil>" by (rule order_le_neq_trans)
    with f c show ?thesis by (simp add: frac_def)
  qed
qed

lemma mapDiskCoords_char:
  assumes "diskInnerRadius U < diskOuterRadius U"
  shows "mapDiskCoords U r phi =
     Some (if r < diskInnerRadius U \<or> r > diskOuterRadius U then (0, 1)
           else (if frac (fl32 (phi / (2 * pi_f32))) < 0.5 then 0.49 else 0.51,
                 clamp ((r - diskInnerRadius U) / (diskOuterRadius U - diskInnerRadius U)) 0 1))"
proof -
  let ?t = "fl32 (phi / (2 * pi_f32))"
  have w: "(if fmod ?t 1 < 0 then fmod ?t 1 + 1 else fmod ?t 1) = frac ?t"
    by (rule wrap_is_frac)
  show ?thesis
    unfolding mapDiskCoords_def Let_def w using assms by auto
qed

lemma mapDiskCoords_u_values:
  "mapDiskCoords U r phi = Some c \<Longrightarrow> fst c = 0 \<or> fst c = 0.49 \<or> fst c = 0.51"
  by (auto simp: mapDiskCoords_def Let_def split: if_splits)

lemma mapDiskCoords_None:
  "mapDiskCoords U r phi = None \<Longrightarrow> diskOuterRadius U - diskInnerRadius U = 0"
  by (auto simp: mapDiskCoords_def Let_def split: if_splits)

lemma mitigateSeam_id:
  "fst c = 0 \<or> fst c = 0.49 \<or> fst c = 0.51 \<Longrightarrow> mitigateSeam tex c col = col"
  by (auto simp: mitigateSeam_def Let_def)

lemma updateUniforms_radii:
  "diskInnerRadius (updateUniforms rnd rays rp) = 2.6"
  "diskOuterRadius (updateUniforms rnd rays rp) = 12"
  "skyRadius (updateUniforms rnd rays rp) = 30"
  "horizonRadius (updateUniforms rnd rays rp) = 2"
  by (simp_all add: updateUniforms_record)

lemma fl32_two_over_pi: "fl32 (4 / (2 * pi_f32)) = 2670179 / 4194304"
proof -
  have "round_float 24 (- 126) (4 / (2 * pi_f32))
          = of_int (round_even ((4 / (2 * pi_f32)) * 2 ^ (0 + 24))) / 2 ^ (0 + 24)"
    by (rule round_float_small) (simp_all add: pi_f32_def)
  then show ?thesis
    by (simp add: fl32_def pi_f32_def round_even_def Let_def)
qed

lemma frac_small: "0 \<le> x \<Longrightarrow> x < 1 \<Longrightarrow> frac x = (x::real)"
  by (simp add: frac_eq)

lemma clamp_5: "clamp ((5 - 2.6) / (12 - 2.6)) 0 1 = 12 / 47"
  by (simp add: clamp_def)

text \<open>
  C7 (as amended). A radius below the inner or above the outer radius maps to \<open>(0, 1)\<close>.
  For a radius in range, with the inner radius below the outer one, \<open>u\<close> is 0.49 when the
  wrapped fraction \<open>q mod 1\<close> is below 0.5 and 0.51 otherwise, and
  \<open>v = clamp((r - rInner) / (rOuter - rInner), 0, 1)\<close>. Here \<open>q\<close> is the quotient of the angle
  by the shader's constant \<open>2.0 * 3.14159\<close>, computed in single precision: the constant is
  \<open>2 \<sqdot> 823549 / 262144 = 6.28318023681640625\<close>, which is less than \<open>2\<pi>\<close>, and the quotient
  is rounded to the nearest \<open>f32\<close>.
\<close>

theorem mapDiskCoords_quantized:
  "(r < diskInnerRadius U \<or> r > diskOuterRadius U \<longrightarrow> mapDiskCoords U r phi = Some (0, 1))
   \<and> (diskInnerRadius U < diskOuterRadius U \<longrightarrow>
        \<not> (r < diskInnerRadius U \<or> r > diskOuterRadius U) \<longrightarrow>
        mapDiskCoords U r phi =
          Some (if frac (fl32 (phi / (2 * pi_f32))) < 0.5 then 0.49 else 0.51,
                clamp ((r - diskInnerRadius U) / (diskOuterRadius U - diskInnerRadius U)) 0 1))
   \<and> 2 * pi_f32 = 6.28318023681640625
   \<and> pi_f32 < pi"
proof (intro conjI impI)
  assume "r < diskInnerRadius U \<or> r > diskOuterRadius U"
  then show "mapDiskCoords U r phi = Some (0, 1)"
    by (simp add: mapDiskCoords_def Let_def)
next
  assume "diskInnerRadius U < diskOuterRadius U"
     and "\<not> (r < diskInnerRadius U \<or> r > diskOuterRadius U)"
  then show "mapDiskCoords U r phi =
          Some (if frac (fl32 (phi / (2 * pi_f32))) < 0.5 then 0.49 else 0.51,
                clamp ((r - diskInnerRadius U) / (diskOuterRadius U - diskInnerRadius U)) 0 1)"
    by (simp add: mapDiskCoords_char)
next
  show "2 * pi_f32 = 6.28318023681640625" by (simp add: pi_f32_def)
  show "pi_f32 < pi" by (rule pi_f32_less_pi)
qed

theorem mapDiskCoords_quantized_witness:
  "mapDiskCoords (updateUniforms 0 1000 (newRayProcessor 256 256 appScene)) 1 1 = Some (0, 1)
   \<and> mapDiskCoords (updateUniforms 0 1000 (newRayProcessor 256 256 appScene)) 5 1
       = Some (0.49, 12 / 47)
   \<and> mapDiskCoords (updateUniforms 0 1000 (newRayProcessor 256 256 appScene)) 5 4
       = Some (0.51, 12 / 47)"
proof -
  let ?U = "updateUniforms 0 1000 (newRayProcessor 256 256 appScene)"
  have f1: "frac (fl32 (1 / (2 * pi_f32))) < 0.5"
    unfolding fl32_one_over_2pi by (simp add: frac_small)
  have f4: "\<not> frac (fl32 (4 / (2 * pi_f32))) < 0.5"
    unfolding fl32_two_over_pi by (simp add: frac_small)
  from mapDiskCoords_quantized [where U = ?U and r = 1 and phi = 1]
  have a: "mapDiskCoords ?U 1 1 = Some (0, 1)" by (simp add: updateUniforms_radii)
  from mapDiskCoords_quantized [where U = ?U and r = 5 and phi = 1] f1 clamp_5
  have b: "mapDiskCoords ?U 5 1 = Some (0.49, 12 / 47)" by (simp add: updateUniforms_radii)
  from mapDiskCoords_quantized [where U = ?U and r = 5 and phi = 4] f4 clamp_5
  have c: "mapDiskCoords ?U 5 4 = Some (0.51, 12 / 47)" by (simp add: updateUniforms_radii)
  from a b c show ?thesis by simp
qed

text \<open>
  C7 as stated fails at the angle \<open>3.141590118408203125\<close>, the shader's own constant, which
  is an \<open>f32\<close> below \<open>\<pi>\<close> and so in the range of \<open>atan2\<close>. Divided by \<open>2\<pi>\<close> it gives a fraction
  below 0.5, about 0.4999996, so the claim gives \<open>u = 0.49\<close>; the shader divides by twice
  the constant, the quotient is exactly 0.5 and \<open>u\<close> is 0.51.
\<close>

theorem mapDiskCoords_two_pi_counterexample:
  "mapDiskCoords (updateUniforms 0 1000 (newRayProcessor 256 256 appScene)) 5
       3.141590118408203125
     = Some (0.51, 12 / 47)
   \<and> mapDiskCoords_spec 2.6 12 5 3.141590118408203125 = (0.49, 12 / 47)
   \<and> (0 :: real) < 3.141590118408203125 \<and> 3.141590118408203125 < pi"
proof -
  let ?U = "updateUniforms 0 1000 (newRayProcessor 256 256 appScene)"
  have v: "(3.141590118408203125 :: real) = pi_f32" by (simp add: pi_f32_def)
  have q: "pi_f32 / (2 * pi_f32) = 1 / 2" by (simp add: pi_f32_def)
  have "mapDiskCoords ?U 5 pi_f32 = Some (0.51, 12 / 47)"
    using clamp_5
    by (simp add: mapDiskCoords_char updateUniforms_radii q fl32_half frac_small)
  moreover have "mapDiskCoords_spec 2.6 12 5 pi_f32 = (0.49, 12 / 47)"
  proof -
    have p: "pi_f32 < pi" by (rule pi_f32_less_pi)
    have p0: "0 < pi_f32" by (simp add: pi_f32_def)
    have h: "pi_f32 / (2 * pi) < 1 / 2" using p by (simp add: field_simps)
    have "0 \<le> pi_f32 / (2 * pi)" using p0 by simp
    moreover from h have "pi_f32 / (2 * pi) < 1" by linarith
    ultimately have "frac (pi_f32 / (2 * pi)) = pi_f32 / (2 * pi)"
      by (intro frac_small)
    with h show ?thesis
      using clamp_5 by (simp add: mapDiskCoords_spec_def)
  qed
  moreover have "pi_f32 < pi" by (rule pi_f32_less_pi)
  moreover have "0 < pi_f32" by (simp add: pi_f32_def)
  ultimately show ?thesis unfolding v by simp
qed

text \<open>
  C10. Whatever the radius and the angle, the \<open>u\<close> that \<open>mapDiskCoords\<close> returns is 0, 0.49
  or 0.51 (the mapping has no result only when the two disk radii are equal). None of these
  lies strictly between 0.52 and 0.99, so none of the three branches of the seam
  mitigation is taken: the colour composited for a disk sample is the texture sample at the
  snapped coordinate, unchanged.
\<close>

theorem disk_u_values_seam_never_taken:
  "case mapDiskCoords U r phi of
     None \<Rightarrow> diskOuterRadius U - diskInnerRadius U = 0
   | Some c \<Rightarrow>
       (fst c = 0 \<or> fst c = 0.49 \<or> fst c = 0.51)
       \<and> \<not> (0.52 < fst c \<and> fst c < 0.99)
       \<and> mitigateSeam diskTex c (diskTex c) = diskTex c"
proof (cases "mapDiskCoords U r phi")
  case None
  then show ?thesis by (simp add: mapDiskCoords_None)
next
  case (Some c)
  then have u: "fst c = 0 \<or> fst c = 0.49 \<or> fst c = 0.51"
    by (rule mapDiskCoords_u_values)
  then have "mitigateSeam diskTex c (diskTex c) = diskTex c"
    by (rule mitigateSeam_id)
  moreover from u have "\<not> (0.52 < fst c \<and> fst c < 0.99)" by auto
  ultimately show ?thesis using Some u by simp
qed

theorem disk_u_values_seam_never_taken_witness:
  "mapDiskCoords (updateUniforms 0 1000 (newRayProcessor 256 256 appScene)) 5 1
     = Some (0.49, 12 / 47)
   \<and> mitigateSeam (\<lambda>c. rgba (fst c) (snd c) 0 1) (0.49, 12 / 47) (rgba 0.49 (12 / 47) 0 1)
     = rgba 0.49 (12 / 47) 0 1"
proof -
  let ?U = "updateUniforms 0 1000 (newRayProcessor 256 256 appScene)"
  have f1: "frac (fl32 (1 / (2 * pi_f32))) < 0.5"
    unfolding fl32_one_over_2pi by (simp add: frac_small)
  have m: "mapDiskCoords ?U 5 1 = Some (0.49, 12 / 47)"
    using f1 clamp_5 by (simp add: mapDiskCoords_char updateUniforms_radii)
  from disk_u_values_seam_never_taken
         [where U = ?U and r = 5 and phi = 1 and diskTex = "\<lambda>c. rgba (fst c) (snd c) 0 1"] m
  show ?thesis by simp
qed


subsection \<open>Additive compositing\<close>






lemma cap_min: "cap x m = min x m"
  by (simp add: cap_def min_def)

lemma Utils_addColor_char:
  "Utils_addColor hit tint =
    (if tint = Transparent then hit
     else rgba (min (of_int \<lfloor>addColorChannel (getBrightness tint) (red hit) (red tint)\<rfloor>) 255)
               (min (of_int \<lfloor>addColorChannel (getBrightness tint) (green hit) (green tint)\<rfloor>) 255)
               (min (of_int \<lfloor>addColorChannel (getBrightness tint) (blue hit) (blue tint)\<rfloor>) 255)
               255)"
  by (simp add: Utils_addColor_def Let_def cap_min)

text \<open>
  The doubles of one evaluation of \<open>Utils.addColor\<close>: the grey (150, 150, 150) under the
  tint (0, 0, 119). In exact arithmetic the red channel is \<open>(1 - 119 / 510) \<sqdot> 150 = 115\<close>;
  in doubles the product is the double just below 115.
\<close>

lemma fl64_0: "fl64 0 = 0"
  by (simp add: fl64_def round_float_def)

lemma fl64_119_255: "fl64 (7 / 15) = 4203359652212463 / 9007199254740992"
proof -
  have "round_float 53 (- 1022) (7 / 15)
          = of_int (round_even ((7 / 15) * 2 ^ (1 + 53))) / 2 ^ (1 + 53)"
    by (rule round_float_small) (simp_all)
  then show ?thesis
    by (simp add: fl64_def round_even_def Let_def)
qed

lemma fl64_brightness_sum: "fl64 (4203359652212463 / 9007199254740992) = 4203359652212463 / 9007199254740992"
proof -
  have "round_float 53 (- 1022) (4203359652212463 / 9007199254740992)
          = of_int (round_even ((4203359652212463 / 9007199254740992) * 2 ^ (1 + 53))) / 2 ^ (1 + 53)"
    by (rule round_float_small) (simp_all)
  then show ?thesis
    by (simp add: fl64_def round_even_def Let_def)
qed

lemma fl64_brightness_half: "fl64 (4203359652212463 / 18014398509481984) = 4203359652212463 / 18014398509481984"
proof -
  have "round_float 53 (- 1022) (4203359652212463 / 18014398509481984)
          = of_int (round_even ((4203359652212463 / 18014398509481984) * 2 ^ (2 + 53))) / 2 ^ (2 + 53)"
    by (rule round_float_small) (simp_all)
  then show ?thesis
    by (simp add: fl64_def round_even_def Let_def)
qed

lemma fl64_one_minus_brightness: "fl64 (13811038857269521 / 18014398509481984) = 863189928579345 / 1125899906842624"
proof -
  have "round_float 53 (- 1022) (13811038857269521 / 18014398509481984)
          = of_int (round_even ((13811038857269521 / 18014398509481984) * 2 ^ (0 + 53))) / 2 ^ (0 + 53)"
    by (rule round_float_small) (simp_all)
  then show ?thesis
    by (simp add: fl64_def round_even_def Let_def)
qed

lemma fl64_product: "fl64 (64739244643450875 / 562949953421312) = 8092405580431359 / 70368744177664"
proof -
  have "round_float 53 (- 1022) (64739244643450875 / 562949953421312)
          = of_int (round_even ((64739244643450875 / 562949953421312) * 2 ^ (53 - 1 - 6))) / 2 ^ (53 - 1 - 6)"
    by (rule round_float_big) (simp_all)
  then show ?thesis
    by (simp add: fl64_def round_even_def Let_def)
qed

lemma fl64_red_sum: "fl64 (8092405580431359 / 70368744177664) = 8092405580431359 / 70368744177664"
proof -
  have "round_float 53 (- 1022) (8092405580431359 / 70368744177664)
          = of_int (round_even ((8092405580431359 / 70368744177664) * 2 ^ (53 - 1 - 6))) / 2 ^ (53 - 1 - 6)"
    by (rule round_float_big) (simp_all)
  then show ?thesis
    by (simp add: fl64_def round_even_def Let_def)
qed

lemma fl64_30345: "fl64 (30345) = 30345"
proof -
  have "round_float 53 (- 1022) (30345)
          = of_int (round_even ((30345) * 2 ^ (53 - 1 - 14))) / 2 ^ (53 - 1 - 14)"
    by (rule round_float_big) (simp_all)
  then show ?thesis
    by (simp add: fl64_def round_even_def Let_def)
qed

lemma fl64_quotient: "fl64 (6069 / 41) = 5208145224563937 / 35184372088832"
proof -
  have "round_float 53 (- 1022) (6069 / 41)
          = of_int (round_even ((6069 / 41) * 2 ^ (53 - 1 - 7))) / 2 ^ (53 - 1 - 7)"
    by (rule round_float_big) (simp_all)
  then show ?thesis
    by (simp add: fl64_def round_even_def Let_def)
qed

lemma fl64_blue_sum: "fl64 (18508696029559233 / 70368744177664) = 289198375461863 / 1099511627776"
proof -
  have "round_float 53 (- 1022) (18508696029559233 / 70368744177664)
          = of_int (round_even ((18508696029559233 / 70368744177664) * 2 ^ (53 - 1 - 8))) / 2 ^ (53 - 1 - 8)"
    by (rule round_float_big) (simp_all)
  then show ?thesis
    by (simp add: fl64_def round_even_def Let_def)
qed

lemma getBrightness_tint:
  "getBrightness (rgba 0 0 119 255) = 4203359652212463 / 18014398509481984"
  by (simp add: getBrightness_def rgba_def Let_def fl64_0 fl64_119_255 fl64_brightness_sum
        fl64_brightness_half)

lemma addColorChannel_red:
  "addColorChannel (4203359652212463 / 18014398509481984) 150 0
     = 8092405580431359 / 70368744177664"
  by (simp add: addColorChannel_def capMin_def fl64_0 fl64_one_minus_brightness fl64_product
        fl64_red_sum)

lemma addColorChannel_blue:
  "addColorChannel (4203359652212463 / 18014398509481984) 150 119
     = 289198375461863 / 1099511627776"
  by (simp add: addColorChannel_def capMin_def fl64_30345 fl64_one_minus_brightness fl64_product
        fl64_quotient fl64_blue_sum)

lemma Utils_addColor_grey:
  "Utils_addColor (rgba 150 150 150 255) (rgba 0 0 119 255) = rgba 114 114 255 255"
proof -
  have t: "rgba 0 0 119 255 \<noteq> Transparent" by (simp add: rgba_def Transparent_def)
  have r: "\<lfloor>8092405580431359 / 70368744177664 :: real\<rfloor> = 114" by simp
  have b: "\<lfloor>289198375461863 / 1099511627776 :: real\<rfloor> = 263" by simp
  have s: "red (rgba 150 150 150 255) = 150" "green (rgba 150 150 150 255) = 150"
    "blue (rgba 150 150 150 255) = 150" "red (rgba 0 0 119 255) = 0"
    "green (rgba 0 0 119 255) = 0" "blue (rgba 0 0 119 255) = 119"
    by (simp_all add: rgba_def)
  show ?thesis
    unfolding Utils_addColor_char getBrightness_tint s addColorChannel_red addColorChannel_blue r b
    using t by simp
qed




subsection \<open>The substep of the equation\<close>

lemma powr_5_2:
  assumes "0 \<le> (t::real)"
  shows "t powr 2.5 = sqrt t ^ 5"
proof -
  have "t powr (5 / 2) = sqrt (t powr 5)" using assms by (rule powr_half_sqrt_powr)
  also have "t powr 5 = t ^ 5" using assms by simp
  also have "sqrt (t ^ 5) = sqrt t ^ 5" by (rule real_sqrt_power)
  finally show ?thesis by simp
qed

lemma norm2_powr: "norm2 q powr 2.5 = norm_v q ^ 5"
  unfolding norm_v_def by (rule powr_5_2) (rule norm2_nonneg)

lemma norm2_powr': "norm2 q powr (5 / 2) = norm_v q ^ 5"
  using norm2_powr [of q] by simp

lemma dot_self: "dot q q = norm2 q"
  by (simp add: dot_def norm2_def)

lemma add_zero_vec: "add v (multiply (multiply q 0) s) = v"
  by (simp add: add_def multiply_def vec3_def)

lemma norm_v_nonneg: "0 \<le> norm_v q"
  by (simp add: norm_v_def norm2_nonneg)



lemma pow_f32_norm2:
  "pow_f32 (norm2 q) 2.5 = (if norm_v q ^ 5 \<le> 1 / 2 ^ 150 then 0 else norm_v q ^ 5)"
  unfolding pow_f32_def norm2_powr by simp

lemma power5_guard:
  assumes "1 / 1024 \<le> (x::real)"
  shows "\<not> x ^ 5 \<le> 1 / 2 ^ 150" "\<not> x ^ 5 \<le> 1 / 2 ^ 1075" "x ^ 5 \<noteq> 0"
proof -
  have e: "(1 / 1024 :: real) ^ 5 = 1 / 2 ^ 50" by (simp add: power_divide)
  have "(1 / 1024 :: real) ^ 5 \<le> x ^ 5" using assms by (intro power_mono) simp_all
  then have l: "1 / 2 ^ 50 \<le> x ^ 5" unfolding e .
  have "(1 / 2 ^ 150 :: real) < 1 / 2 ^ 50"
    by (intro divide_strict_left_mono power_strict_increasing) simp_all
  then have "1 / 2 ^ 150 < x ^ 5" using l by (rule less_le_trans)
  then show "\<not> x ^ 5 \<le> 1 / 2 ^ 150" by (simp only: not_le)
  have "(1 / 2 ^ 1075 :: real) < 1 / 2 ^ 50"
    by (intro divide_strict_left_mono power_strict_increasing) simp_all
  then have "1 / 2 ^ 1075 < x ^ 5" using l by (rule less_le_trans)
  then show "\<not> x ^ 5 \<le> 1 / 2 ^ 1075" by (simp only: not_le)
  have "(0 :: real) < 1 / 2 ^ 50" by simp
  then have "0 < x ^ 5" using l by (rule less_le_trans)
  then show "x ^ 5 \<noteq> 0" by simp
qed


lemma pow_f32_far: "1 / 1024 \<le> norm_v q \<Longrightarrow> pow_f32 (norm2 q) 2.5 = norm_v q ^ 5"
  unfolding pow_f32_norm2 using power5_guard(1) [of "norm_v q"] by (simp only: if_False)

lemma power5_pos: "1 / 1024 \<le> (x::real) \<Longrightarrow> x ^ 5 \<noteq> 0"
  by (rule power5_guard(3))


lemma applyEquation_char:
  assumes "1 / 1024 \<le> norm_v (add (origin ph) (multiply (direction ph) s))"
  shows "applyEquation U ph s =
     Some (ph\<lparr>origin := add (origin ph) (multiply (direction ph) s),
               direction := add (direction ph)
                 (multiply (multiply (add (origin ph) (multiply (direction ph) s))
                    (bhPotentialCoefficient U * ray_h2 ph
                       / norm_v (add (origin ph) (multiply (direction ph) s)) ^ 5)) s)\<rparr>)"
proof -
  let ?q = "add (origin ph) (multiply (direction ph) s)"
  have o: "origin (ph\<lparr>origin := ?q\<rparr>) = ?q" by simp
  show ?thesis
    unfolding applyEquation_def Let_def o dot_self pow_f32_far [OF assms]
    using power5_pos [OF assms] by simp
qed









subsection \<open>Accumulation\<close>


lemma pixelIndexOf_mult4: "\<exists>m. pixelIndexOf U g = 4 * m \<and> 4 * m + 3 < 2 ^ 32"
proof -
  define a where "a = ((snd g * u32 (uWidth U)) mod 2 ^ 32 + fst g) mod 2 ^ 32"
  have "pixelIndexOf U g = (a * 4) mod 2 ^ 32" by (simp add: pixelIndexOf_def a_def)
  also have "(a * 4) mod 2 ^ 32 = 4 * (a mod 2 ^ 30)"
  proof -
    have "(4 * a) mod (4 * 2 ^ 30) = 4 * (a mod 2 ^ 30)" by (rule mult_mod_right [symmetric])
    then show ?thesis by (simp add: mult.commute)
  qed
  finally have e: "pixelIndexOf U g = 4 * (a mod 2 ^ 30)" .
  have "a mod 2 ^ 30 < 2 ^ 30" by simp
  then have "4 * (a mod 2 ^ 30) + 3 < 2 ^ 32" by simp
  with e show ?thesis by blast
qed

lemma slot_mod:
  "(pixelIndexOf U g + 1) mod 2 ^ 32 = pixelIndexOf U g + 1"
  "(pixelIndexOf U g + 2) mod 2 ^ 32 = pixelIndexOf U g + 2"
  "(pixelIndexOf U g + 3) mod 2 ^ 32 = pixelIndexOf U g + 3"
  using pixelIndexOf_mult4 [of U g] by auto

lemma vec4_eta: "\<lparr>red = red c, green = green c, blue = blue c, alpha = alpha c\<rparr> = c"
  by (cases c) simp

lemma main_unfold:
  assumes "fst g < u32 (uWidth U)" "snd g < u32 (uHeight U)"
  shows "main U c g mem =
     \<lparr>accumulationData =
        (accumulationData mem)
          (pixelIndexOf U g := blend (uFrameCount U) (accumulationData mem (pixelIndexOf U g)) (red c),
           pixelIndexOf U g + 1 := blend (uFrameCount U) (accumulationData mem (pixelIndexOf U g + 1)) (green c),
           pixelIndexOf U g + 2 := blend (uFrameCount U) (accumulationData mem (pixelIndexOf U g + 2)) (blue c),
           pixelIndexOf U g + 3 := blend (uFrameCount U) (accumulationData mem (pixelIndexOf U g + 3)) (alpha c)),
      outputData = (outputData mem)
          (g := rgba (blend (uFrameCount U) (accumulationData mem (pixelIndexOf U g)) (red c))
                  (blend (uFrameCount U) (accumulationData mem (pixelIndexOf U g + 1)) (green c))
                  (blend (uFrameCount U) (accumulationData mem (pixelIndexOf U g + 2)) (blue c))
                  (blend (uFrameCount U) (accumulationData mem (pixelIndexOf U g + 3)) (alpha c)))\<rparr>"
proof -
  have nb: "\<not> (fst g \<ge> u32 (uWidth U) \<or> snd g \<ge> u32 (uHeight U))"
    using assms by simp
  show ?thesis
  proof (cases "uFrameCount U > 0")
    case True
    then show ?thesis
      unfolding main_def Let_def slot_mod blend_def using nb by simp
  next
    case False
    then show ?thesis
      unfolding main_def Let_def slot_mod blend_def using nb by (simp add: rgba_def vec4_eta)
  qed
qed

lemma main_in_bounds:
  assumes "fst g < u32 (uWidth U)" "snd g < u32 (uHeight U)"
  shows "accumulationData (main U c g mem) (pixelIndexOf U g)
           = blend (uFrameCount U) (accumulationData mem (pixelIndexOf U g)) (red c)"
    "accumulationData (main U c g mem) (pixelIndexOf U g + 1)
           = blend (uFrameCount U) (accumulationData mem (pixelIndexOf U g + 1)) (green c)"
    "accumulationData (main U c g mem) (pixelIndexOf U g + 2)
           = blend (uFrameCount U) (accumulationData mem (pixelIndexOf U g + 2)) (blue c)"
    "accumulationData (main U c g mem) (pixelIndexOf U g + 3)
           = blend (uFrameCount U) (accumulationData mem (pixelIndexOf U g + 3)) (alpha c)"
    "outputData (main U c g mem) g
           = rgba (blend (uFrameCount U) (accumulationData mem (pixelIndexOf U g)) (red c))
                  (blend (uFrameCount U) (accumulationData mem (pixelIndexOf U g + 1)) (green c))
                  (blend (uFrameCount U) (accumulationData mem (pixelIndexOf U g + 2)) (blue c))
                  (blend (uFrameCount U) (accumulationData mem (pixelIndexOf U g + 3)) (alpha c))"
  unfolding main_unfold [OF assms] by simp_all

lemma main_other:
  assumes "n \<noteq> pixelIndexOf U q" "n \<noteq> pixelIndexOf U q + 1"
    "n \<noteq> pixelIndexOf U q + 2" "n \<noteq> pixelIndexOf U q + 3"
  shows "accumulationData (main U c q mem) n = accumulationData mem n"
proof (cases "fst q < u32 (uWidth U) \<and> snd q < u32 (uHeight U)")
  case True
  then have a: "fst q < u32 (uWidth U)" "snd q < u32 (uHeight U)" by simp_all
  show ?thesis unfolding main_unfold [OF a] using assms by simp
next
  case False
  then have "main U c q mem = mem" by (auto simp: main_def)
  then show ?thesis by simp
qed

lemma main_other_output:
  assumes "q \<noteq> p"
  shows "outputData (main U c q mem) p = outputData mem p"
  using assms by (simp add: main_def Let_def)

lemma lt4_cases: "k < 4 \<Longrightarrow> k = 0 \<or> k = 1 \<or> k = 2 \<or> k = (3::nat)"
  by arith

lemma main_slot:
  assumes "fst g < u32 (uWidth U)" "snd g < u32 (uHeight U)" "k < 4"
  shows "accumulationData (main U c g mem) (pixelIndexOf U g + k)
           = blend (uFrameCount U) (accumulationData mem (pixelIndexOf U g + k)) (channel k c)"
  using lt4_cases [OF assms(3)] main_in_bounds(1-4) [OF assms(1,2), of c mem]
  by (auto simp: channel_def)

lemma pixelIndexOf_plain:
  assumes "fst g < u32 (uWidth U)" "snd g < u32 (uHeight U)"
    "4 * (u32 (uWidth U) * u32 (uHeight U)) \<le> 2 ^ 32"
  shows "pixelIndexOf U g = 4 * (snd g * u32 (uWidth U) + fst g)"
proof -
  let ?W = "u32 (uWidth U)" and ?H = "u32 (uHeight U)"
  have "snd g * ?W + fst g < Suc (snd g) * ?W" using assms(1) by simp
  also have "\<dots> \<le> ?H * ?W" using assms(2) by (intro mult_le_mono1) simp
  finally have lt: "snd g * ?W + fst g < ?W * ?H" by (simp add: mult.commute)
  have "4 * (snd g * ?W + fst g) < 4 * (?W * ?H)" using lt by simp
  then have b4: "4 * (snd g * ?W + fst g) < 2 ^ 32" using assms(3) by (rule less_le_trans)
  then have b1: "snd g * ?W + fst g < 2 ^ 32" by simp
  then have b0: "snd g * ?W < 2 ^ 32" by simp
  have "pixelIndexOf U g = ((snd g * ?W + fst g) * 4) mod 2 ^ 32"
    unfolding pixelIndexOf_def using b0 b1 by simp
  also have "\<dots> = 4 * (snd g * ?W + fst g)" using b4 by (simp add: mult.commute)
  finally show ?thesis .
qed

lemma div4: "k < 4 \<Longrightarrow> (4 * a + k) div 4 = (a::nat)"
  by simp

lemma pixel_slots_disjoint:
  assumes "fst p < u32 (uWidth U)" "snd p < u32 (uHeight U)"
    "fst q < u32 (uWidth U)" "snd q < u32 (uHeight U)"
    "4 * (u32 (uWidth U) * u32 (uHeight U)) \<le> 2 ^ 32" "q \<noteq> p" "k < 4" "j < 4"
  shows "pixelIndexOf U p + k \<noteq> pixelIndexOf U q + j"
proof
  let ?W = "u32 (uWidth U)"
  assume e: "pixelIndexOf U p + k = pixelIndexOf U q + j"
  have ip: "pixelIndexOf U p = 4 * (snd p * ?W + fst p)"
    using assms(1,2,5) by (rule pixelIndexOf_plain)
  have iq: "pixelIndexOf U q = 4 * (snd q * ?W + fst q)"
    using assms(3,4,5) by (rule pixelIndexOf_plain)
  from e have "4 * (snd p * ?W + fst p) + k = 4 * (snd q * ?W + fst q) + j"
    unfolding ip iq .
  then have "(4 * (snd p * ?W + fst p) + k) div 4 = (4 * (snd q * ?W + fst q) + j) div 4"
    by (rule arg_cong)
  then have s: "snd p * ?W + fst p = snd q * ?W + fst q"
    unfolding div4 [OF assms(7)] div4 [OF assms(8)] .
  have "snd p = snd q"
  proof (rule ccontr)
    assume "snd p \<noteq> snd q"
    then consider "snd p < snd q" | "snd q < snd p" by arith
    then show False
    proof cases
      case 1
      then have "Suc (snd p) * ?W \<le> snd q * ?W" by (intro mult_le_mono1) simp
      with s assms(1) show False by simp
    next
      case 2
      then have "Suc (snd q) * ?W \<le> snd p * ?W" by (intro mult_le_mono1) simp
      with s assms(3) show False by simp
    qed
  qed
  with s have "fst p = fst q" by simp
  with \<open>snd p = snd q\<close> have "p = q" by (simp add: prod_eq_iff)
  with assms(6) show False by simp
qed

lemma main_keeps_slot:
  assumes "fst p < u32 (uWidth U)" "snd p < u32 (uHeight U)"
    "4 * (u32 (uWidth U) * u32 (uHeight U)) \<le> 2 ^ 32" "q \<noteq> p" "k < 4"
  shows "accumulationData (main U c q mem) (pixelIndexOf U p + k)
           = accumulationData mem (pixelIndexOf U p + k)"
proof (cases "fst q < u32 (uWidth U) \<and> snd q < u32 (uHeight U)")
  case True
  then have a: "fst q < u32 (uWidth U)" "snd q < u32 (uHeight U)" by simp_all
  have d: "pixelIndexOf U p + k \<noteq> pixelIndexOf U q + j" if "j < 4" for j
    using assms(1,2) a assms(3,4,5) that by (rule pixel_slots_disjoint)
  show ?thesis
    using d [of 0] d [of 1] d [of 2] d [of 3] by (intro main_other) simp_all
next
  case False
  then have "main U c q mem = mem" by (auto simp: main_def)
  then show ?thesis by simp
qed

lemma fold_keeps_pixel:
  assumes "fst p < u32 (uWidth U)" "snd p < u32 (uHeight U)"
    "4 * (u32 (uWidth U) * u32 (uHeight U)) \<le> 2 ^ 32" "p \<notin> set gs" "k < 4"
  shows "accumulationData (fold (\<lambda>g. main U (trace g) g) gs mem) (pixelIndexOf U p + k)
           = accumulationData mem (pixelIndexOf U p + k)
       \<and> outputData (fold (\<lambda>g. main U (trace g) g) gs mem) p = outputData mem p"
  using assms(4)
proof (induction gs arbitrary: mem)
  case Nil
  then show ?case by simp
next
  case (Cons q gs)
  then have n: "q \<noteq> p" "p \<notin> set gs" by auto
  show ?case
    using Cons.IH [OF n(2), of "main U (trace q) q mem"]
      main_keeps_slot [OF assms(1,2,3) n(1) assms(5), of "trace q" mem]
      main_other_output [OF n(1), of U "trace q" mem]
    by simp
qed

lemma dispatch_pixel:
  assumes "fst p < u32 (uWidth U)" "snd p < u32 (uHeight U)"
    "4 * (u32 (uWidth U) * u32 (uHeight U)) \<le> 2 ^ 32"
    "fst p < 16 * cx" "snd p < 16 * cy" "k < 4"
  shows "accumulationData (dispatchWorkgroups cx cy U trace mem) (pixelIndexOf U p + k)
           = blend (uFrameCount U) (accumulationData mem (pixelIndexOf U p + k)) (channel k (trace p))"
proof -
  let ?f = "\<lambda>g. main U (trace g) g"
  have "p \<in> set (dispatchGrid cx cy)"
    using assms(4,5) by (cases p) (simp add: dispatchGrid_def)
  then obtain xs ys where sp: "dispatchGrid cx cy = xs @ p # ys"
    by (meson split_list)
  have "distinct (dispatchGrid cx cy)"
    by (simp add: dispatchGrid_def distinct_product)
  with sp have nx: "p \<notin> set xs" and ny: "p \<notin> set ys" by auto
  have "dispatchWorkgroups cx cy U trace mem = fold ?f ys (main U (trace p) p (fold ?f xs mem))"
    by (simp add: dispatchWorkgroups_def sp)
  then have "accumulationData (dispatchWorkgroups cx cy U trace mem) (pixelIndexOf U p + k)
      = accumulationData (main U (trace p) p (fold ?f xs mem)) (pixelIndexOf U p + k)"
    using fold_keeps_pixel [OF assms(1,2,3) ny assms(6)] by simp
  also have "\<dots> = blend (uFrameCount U)
                      (accumulationData (fold ?f xs mem) (pixelIndexOf U p + k)) (channel k (trace p))"
    using assms(1,2,6) by (rule main_slot)
  also have "accumulationData (fold ?f xs mem) (pixelIndexOf U p + k)
               = accumulationData mem (pixelIndexOf U p + k)"
    using fold_keeps_pixel [OF assms(1,2,3) nx assms(6)] by simp
  finally show ?thesis .
qed

lemma dispatch_output:
  assumes "fst p < u32 (uWidth U)" "snd p < u32 (uHeight U)"
    "4 * (u32 (uWidth U) * u32 (uHeight U)) \<le> 2 ^ 32"
    "fst p < 16 * cx" "snd p < 16 * cy"
  shows "outputData (dispatchWorkgroups cx cy U trace mem) p
           = rgba (blend (uFrameCount U) (accumulationData mem (pixelIndexOf U p)) (red (trace p)))
                  (blend (uFrameCount U) (accumulationData mem (pixelIndexOf U p + 1)) (green (trace p)))
                  (blend (uFrameCount U) (accumulationData mem (pixelIndexOf U p + 2)) (blue (trace p)))
                  (blend (uFrameCount U) (accumulationData mem (pixelIndexOf U p + 3)) (alpha (trace p)))"
proof -
  let ?f = "\<lambda>g. main U (trace g) g"
  have "p \<in> set (dispatchGrid cx cy)"
    using assms(4,5) by (cases p) (simp add: dispatchGrid_def)
  then obtain xs ys where sp: "dispatchGrid cx cy = xs @ p # ys"
    by (meson split_list)
  have "distinct (dispatchGrid cx cy)"
    by (simp add: dispatchGrid_def distinct_product)
  with sp have nx: "p \<notin> set xs" and ny: "p \<notin> set ys" by auto
  have k: "accumulationData (fold ?f xs mem) (pixelIndexOf U p + j)
             = accumulationData mem (pixelIndexOf U p + j)" if "j < 4" for j
    using fold_keeps_pixel [OF assms(1,2,3) nx that] by simp
  have "dispatchWorkgroups cx cy U trace mem = fold ?f ys (main U (trace p) p (fold ?f xs mem))"
    by (simp add: dispatchWorkgroups_def sp)
  then have "outputData (dispatchWorkgroups cx cy U trace mem) p
      = outputData (main U (trace p) p (fold ?f xs mem)) p"
    using fold_keeps_pixel [OF assms(1,2,3) ny, of 0] by simp
  also have "\<dots> = rgba (blend (uFrameCount U) (accumulationData (fold ?f xs mem) (pixelIndexOf U p)) (red (trace p)))
                  (blend (uFrameCount U) (accumulationData (fold ?f xs mem) (pixelIndexOf U p + 1)) (green (trace p)))
                  (blend (uFrameCount U) (accumulationData (fold ?f xs mem) (pixelIndexOf U p + 2)) (blue (trace p)))
                  (blend (uFrameCount U) (accumulationData (fold ?f xs mem) (pixelIndexOf U p + 3)) (alpha (trace p)))"
    using assms(1,2) by (rule main_in_bounds(5))
  finally show ?thesis using k [of 0] k [of 1] k [of 2] k [of 3] by simp
qed

lemma u32_real: "n < 2 ^ 32 \<Longrightarrow> u32 (real n) = n"
  by (simp add: u32_def trunc_real_def)

lemma ceil16: "n \<le> 16 * nat \<lceil>real n / 16\<rceil>"
proof -
  have "real n / 16 \<le> of_int \<lceil>real n / 16\<rceil>" by (rule le_of_int_ceiling)
  then have "real n \<le> 16 * of_int \<lceil>real n / 16\<rceil>" by linarith
  moreover have "0 \<le> \<lceil>real n / 16\<rceil>" by simp
  then have "real (nat \<lceil>real n / 16\<rceil>) = of_int \<lceil>real n / 16\<rceil>" by simp
  ultimately have "real n \<le> real (16 * nat \<lceil>real n / 16\<rceil>)" by simp
  then show ?thesis by (simp only: of_nat_le_iff)
qed

lemma updateUniforms_fields:
  "uWidth (updateUniforms rnd rays rp) = real (width rp)"
  "uHeight (updateUniforms rnd rays rp) = real (height rp)"
  "uFrameCount (updateUniforms rnd rays rp) = real (frameCount rp)"
  by (simp_all add: updateUniforms_record)

lemma updateUniforms_cong:
  assumes "width a = width b" "height a = height b" "scene a = scene b"
    "frameCount a = frameCount b" "maxIterations a = maxIterations b"
    "jitterScale a = jitterScale b"
  shows "updateUniforms rnd rays a = updateUniforms rnd rays b"
  using assms by (simp add: updateUniforms_record)

lemma size_bounds:
  assumes "px < (W::nat)" "py < H" "4 * (W * H) \<le> 2 ^ 32"
  shows "W < 2 ^ 32" "H < 2 ^ 32"
proof -
  have "1 \<le> H" "1 \<le> W" using assms by simp_all
  then have "W * 1 \<le> W * H" "1 * H \<le> W * H" by (simp_all only: mult_le_mono)
  then have "4 * W \<le> 4 * (W * H)" "4 * H \<le> 4 * (W * H)" by simp_all
  with assms(3) have "4 * W \<le> 2 ^ 32" "4 * H \<le> 2 ^ 32" by (simp_all only: order_trans)
  then show "W < 2 ^ 32" "H < 2 ^ 32" using \<open>1 \<le> W\<close> \<open>1 \<le> H\<close> by simp_all
qed

lemma processFrame_state:
  "fst (fst (processFrame rnd rays tracer (rp, mem)))
     = rp\<lparr>gpuLog := gpuLog rp @ [Submit (uniformBindGroup rp)], frameCount := frameCount rp + 1\<rparr>"
  "snd (processFrame rnd rays tracer (rp, mem)) = width rp * height rp"
  by (simp_all add: processFrame_def Let_def)

lemma processFrame_pixel:
  assumes "px < width rp" "py < height rp" "4 * (width rp * height rp) \<le> 2 ^ 32"
  shows "k < 4 \<Longrightarrow> accumulationData (snd (fst (processFrame rnd rays tracer (rp, mem))))
           (4 * (py * width rp + px) + k)
         = blend (real (frameCount rp)) (accumulationData mem (4 * (py * width rp + px) + k))
             (channel k (tracer (updateUniforms rnd rays rp) (px, py)))"
    and "outputData (snd (fst (processFrame rnd rays tracer (rp, mem)))) (px, py)
         = rgba (blend (real (frameCount rp)) (accumulationData mem (4 * (py * width rp + px)))
                   (red (tracer (updateUniforms rnd rays rp) (px, py))))
                (blend (real (frameCount rp)) (accumulationData mem (4 * (py * width rp + px) + 1))
                   (green (tracer (updateUniforms rnd rays rp) (px, py))))
                (blend (real (frameCount rp)) (accumulationData mem (4 * (py * width rp + px) + 2))
                   (blue (tracer (updateUniforms rnd rays rp) (px, py))))
                (blend (real (frameCount rp)) (accumulationData mem (4 * (py * width rp + px) + 3))
                   (alpha (tracer (updateUniforms rnd rays rp) (px, py))))"
proof -
  let ?U = "updateUniforms rnd rays rp"
  let ?cx = "nat \<lceil>real (width rp) / 16\<rceil>" and ?cy = "nat \<lceil>real (height rp) / 16\<rceil>"
  note sb = size_bounds [OF assms]
  have w: "u32 (uWidth ?U) = width rp" and h: "u32 (uHeight ?U) = height rp"
    using sb by (simp_all add: updateUniforms_fields u32_real)
  have f: "uFrameCount ?U = real (frameCount rp)" by (simp add: updateUniforms_fields)
  have b: "fst (px, py) < u32 (uWidth ?U)" "snd (px, py) < u32 (uHeight ?U)"
    using assms w h by simp_all
  have nw: "4 * (u32 (uWidth ?U) * u32 (uHeight ?U)) \<le> 2 ^ 32"
    using assms(3) w h by simp
  have g: "fst (px, py) < 16 * ?cx" "snd (px, py) < 16 * ?cy"
    using assms(1,2) ceil16 [of "width rp"] ceil16 [of "height rp"] by simp_all
  have i: "pixelIndexOf ?U (px, py) = 4 * (py * width rp + px)"
    using pixelIndexOf_plain [OF b nw] w by simp
  have m: "snd (fst (processFrame rnd rays tracer (rp, mem)))
             = dispatchWorkgroups ?cx ?cy ?U (tracer ?U) mem"
    by (simp add: processFrame_def Let_def)
  show "k < 4 \<Longrightarrow> accumulationData (snd (fst (processFrame rnd rays tracer (rp, mem))))
           (4 * (py * width rp + px) + k)
         = blend (real (frameCount rp)) (accumulationData mem (4 * (py * width rp + px) + k))
             (channel k (tracer (updateUniforms rnd rays rp) (px, py)))"
    unfolding m using dispatch_pixel [OF b nw g, of k "tracer ?U" mem]
    unfolding i f by simp
  show "outputData (snd (fst (processFrame rnd rays tracer (rp, mem)))) (px, py)
         = rgba (blend (real (frameCount rp)) (accumulationData mem (4 * (py * width rp + px)))
                   (red (tracer (updateUniforms rnd rays rp) (px, py))))
                (blend (real (frameCount rp)) (accumulationData mem (4 * (py * width rp + px) + 1))
                   (green (tracer (updateUniforms rnd rays rp) (px, py))))
                (blend (real (frameCount rp)) (accumulationData mem (4 * (py * width rp + px) + 2))
                   (blue (tracer (updateUniforms rnd rays rp) (px, py))))
                (blend (real (frameCount rp)) (accumulationData mem (4 * (py * width rp + px) + 3))
                   (alpha (tracer (updateUniforms rnd rays rp) (px, py))))"
    unfolding m using dispatch_output [OF b nw g, of "tracer ?U" mem]
    unfolding i f by simp
qed

lemma renderFrames_snoc:
  "renderFrames (rnds @ [rnd]) rays tracer s
     = fst (processFrame rnd rays tracer (renderFrames rnds rays tracer s))"
  by (induction rnds arbitrary: s) simp_all

lemma renderFrames_state:
  "width (fst (renderFrames rnds rays tracer (rp, mem))) = width rp
   \<and> height (fst (renderFrames rnds rays tracer (rp, mem))) = height rp
   \<and> scene (fst (renderFrames rnds rays tracer (rp, mem))) = scene rp
   \<and> maxIterations (fst (renderFrames rnds rays tracer (rp, mem))) = maxIterations rp
   \<and> jitterScale (fst (renderFrames rnds rays tracer (rp, mem))) = jitterScale rp
   \<and> frameCount (fst (renderFrames rnds rays tracer (rp, mem))) = frameCount rp + length rnds"
proof (induction rnds rule: rev_induct)
  case Nil
  then show ?case by simp
next
  case (snoc rnd rnds)
  obtain rq m where s: "renderFrames rnds rays tracer (rp, mem) = (rq, m)"
    by (cases "renderFrames rnds rays tracer (rp, mem)")
  show ?case
    using snoc.IH unfolding renderFrames_snoc s
    by (simp add: processFrame_state)
qed

lemma blend_zero: "blend 0 A R = R"
  by (simp add: blend_def)

lemma blend_mean:
  assumes "0 < n"
  shows "blend (real n) (S / real n) R = (S + R) / real (Suc n)"
proof -
  have "blend (real n) (S / real n) R
          = (S / real n) * (real n / (real n + 1)) + R * (1 - real n / (real n + 1))"
    using assms by (simp add: blend_def)
  also have "\<dots> = (S + R) / (real n + 1)"
  proof -
    define x where "x = real n"
    have x: "0 < x" "x \<noteq> 0" "x + 1 \<noteq> 0" using assms by (simp_all add: x_def)
    have a: "(S / x) * (x / (x + 1)) = S / (x + 1)" using x by simp
    have "1 - x / (x + 1) = (x + 1) / (x + 1) - x / (x + 1)" using x by simp
    also have "\<dots> = 1 / (x + 1)" by (simp only: diff_divide_distrib [symmetric]) simp
    finally have b: "R * (1 - x / (x + 1)) = R / (x + 1)" by simp
    show ?thesis unfolding x_def [symmetric] a b by (simp add: add_divide_distrib)
  qed
  finally show ?thesis by (simp add: add.commute)
qed

lemma frameColors_snoc:
  "frameColors (rnds @ [rnd]) rays tracer rp p
     = frameColors rnds rays tracer rp p
       @ [tracer (updateUniforms rnd rays (rp\<lparr>frameCount := length rnds\<rparr>)) p]"
  by (simp add: frameColors_def enumerate_append_eq)

lemma length_frameColors: "length (frameColors rnds rays tracer rp p) = length rnds"
  by (simp add: frameColors_def)

lemma renderFrames_mean:
  assumes "frameCount rp = 0" "px < width rp" "py < height rp"
    "4 * (width rp * height rp) \<le> 2 ^ 32" "k < 4"
  shows "rnds \<noteq> [] \<Longrightarrow>
     accumulationData (snd (renderFrames rnds rays tracer (rp, mem)))
        (4 * (py * width rp + px) + k)
     = mean (map (channel k) (frameColors rnds rays tracer rp (px, py)))"
proof (induction rnds rule: rev_induct)
  case Nil
  then show ?case by simp
next
  case (snoc rnd rnds)
  obtain rq m where s: "renderFrames rnds rays tracer (rp, mem) = (rq, m)"
    by (cases "renderFrames rnds rays tracer (rp, mem)")
  have st: "width rq = width rp" "height rq = height rp" "scene rq = scene rp"
    "maxIterations rq = maxIterations rp" "jitterScale rq = jitterScale rp"
    "frameCount rq = length rnds"
    using renderFrames_state [of rnds rays tracer rp mem] assms(1) unfolding s by simp_all
  have u: "updateUniforms rnd rays rq = updateUniforms rnd rays (rp\<lparr>frameCount := length rnds\<rparr>)"
    by (rule updateUniforms_cong) (simp_all add: st)
  let ?R = "tracer (updateUniforms rnd rays (rp\<lparr>frameCount := length rnds\<rparr>)) (px, py)"
  let ?cs = "map (channel k) (frameColors rnds rays tracer rp (px, py))"
  have b: "px < width rq" "py < height rq" "4 * (width rq * height rq) \<le> 2 ^ 32"
    using assms st by simp_all
  have step: "accumulationData (snd (renderFrames (rnds @ [rnd]) rays tracer (rp, mem)))
        (4 * (py * width rp + px) + k)
      = blend (real (length rnds)) (accumulationData m (4 * (py * width rp + px) + k))
          (channel k ?R)"
    unfolding renderFrames_snoc s
    using processFrame_pixel(1) [OF b assms(5), of rnd rays tracer m]
    unfolding u st by simp
  have cs: "map (channel k) (frameColors (rnds @ [rnd]) rays tracer rp (px, py))
              = ?cs @ [channel k ?R]"
    by (simp add: frameColors_snoc)
  show ?case
  proof (cases "rnds = []")
    case True
    then show ?thesis
      unfolding step cs by (simp add: blend_zero mean_def frameColors_def)
  next
    case False
    then have n: "0 < length rnds" by simp
    have "accumulationData m (4 * (py * width rp + px) + k) = mean ?cs"
      using snoc.IH [OF False] unfolding s by simp
    then have "accumulationData m (4 * (py * width rp + px) + k)
                 = sum_list ?cs / real (length rnds)"
      by (simp add: mean_def length_frameColors)
    then show ?thesis
      unfolding step cs using blend_mean [OF n, of "sum_list ?cs" "channel k ?R"]
      by (simp add: mean_def length_frameColors)
  qed
qed



lemma channel_rgba:
  "k < 4 \<Longrightarrow> channel k (rgba (f 0) (f 1) (f 2) (f 3)) = f k"
  using lt4_cases [of k] by (auto simp: channel_def rgba_def)

lemma main_output_channel:
  assumes "fst g < u32 (uWidth U)" "snd g < u32 (uHeight U)" "k < 4"
  shows "channel k (outputData (main U c g mem) g)
           = blend (uFrameCount U) (accumulationData mem (pixelIndexOf U g + k)) (channel k c)"
  unfolding main_in_bounds(5) [OF assms(1,2)]
  using lt4_cases [OF assms(3)] by (auto simp: channel_def rgba_def)

lemma processFrame_output_channel:
  assumes "px < width rp" "py < height rp" "4 * (width rp * height rp) \<le> 2 ^ 32" "k < 4"
  shows "channel k (outputData (snd (fst (processFrame rnd rays tracer (rp, mem)))) (px, py))
         = accumulationData (snd (fst (processFrame rnd rays tracer (rp, mem))))
             (4 * (py * width rp + px) + k)"
  unfolding processFrame_pixel(2) [OF assms(1,2,3)] processFrame_pixel(1) [OF assms]
  using lt4_cases [OF assms(4)] by (auto simp: channel_def rgba_def)

lemma renderFrames_output:
  assumes "frameCount rp = 0" "px < width rp" "py < height rp"
    "4 * (width rp * height rp) \<le> 2 ^ 32" "k < 4" "rnds \<noteq> []"
  shows "channel k (outputData (snd (renderFrames rnds rays tracer (rp, mem))) (px, py))
     = accumulationData (snd (renderFrames rnds rays tracer (rp, mem)))
        (4 * (py * width rp + px) + k)"
proof -
  from assms(6) obtain ys y where r: "rnds = ys @ [y]" by (meson rev_exhaust)
  obtain rq m where s: "renderFrames ys rays tracer (rp, mem) = (rq, m)"
    by (cases "renderFrames ys rays tracer (rp, mem)")
  have st: "width rq = width rp" "height rq = height rp"
    using renderFrames_state [of ys rays tracer rp mem] unfolding s by simp_all
  have b: "px < width rq" "py < height rq" "4 * (width rq * height rq) \<le> 2 ^ 32"
    using assms st by simp_all
  show ?thesis
    unfolding r renderFrames_snoc s
    using processFrame_output_channel [OF b assms(5), of rnd rays tracer m for rnd]
    unfolding st by simp
qed

text \<open>
  C2. For every invocation inside the image and every component \<open>k\<close> of its pixel, \<open>main\<close>
  writes the same value into the accumulation buffer and into the output image: the ray
  colour \<open>R\<close> itself when the frame count \<open>F\<close> is 0, and \<open>A \<sqdot> w + R \<sqdot> (1 - w)\<close> with
  \<open>w = F / (F + 1)\<close> when \<open>F > 0\<close>, where \<open>A\<close> is the value accumulated before. Hence,
  when frames are rendered one after the other by a processor whose frame counter starts
  at 0 (the image having at most \<open>2\<^sup>3\<^sup>2\<close> floats, so that the 32-bit pixel index does not
  wrap), the accumulator and the output image hold at every pixel, after \<open>F + 1\<close> frames,
  the arithmetic mean of the \<open>F + 1\<close> ray colours of that pixel.
\<close>

theorem accumulation_running_mean:
  "(fst g < u32 (uWidth U) \<and> snd g < u32 (uHeight U) \<and> k < 4 \<longrightarrow>
      accumulationData (main U R g mem) (pixelIndexOf U g + k)
        = blend (uFrameCount U) (accumulationData mem (pixelIndexOf U g + k)) (channel k R)
      \<and> channel k (outputData (main U R g mem) g)
        = blend (uFrameCount U) (accumulationData mem (pixelIndexOf U g + k)) (channel k R))
   \<and> (frameCount rp = 0 \<and> px < width rp \<and> py < height rp
        \<and> 4 * (width rp * height rp) \<le> 2 ^ 32 \<and> rnds \<noteq> [] \<and> k < 4 \<longrightarrow>
      accumulationData (snd (renderFrames rnds rays tracer (rp, mem0)))
          (4 * (py * width rp + px) + k)
        = mean (map (channel k) (frameColors rnds rays tracer rp (px, py)))
      \<and> channel k (outputData (snd (renderFrames rnds rays tracer (rp, mem0))) (px, py))
        = mean (map (channel k) (frameColors rnds rays tracer rp (px, py))))"
proof (intro conjI impI)
  assume a: "fst g < u32 (uWidth U) \<and> snd g < u32 (uHeight U) \<and> k < 4"
  then show "accumulationData (main U R g mem) (pixelIndexOf U g + k)
        = blend (uFrameCount U) (accumulationData mem (pixelIndexOf U g + k)) (channel k R)"
    by (intro main_slot) simp_all
  from a show "channel k (outputData (main U R g mem) g)
        = blend (uFrameCount U) (accumulationData mem (pixelIndexOf U g + k)) (channel k R)"
    by (intro main_output_channel) simp_all
next
  assume a: "frameCount rp = 0 \<and> px < width rp \<and> py < height rp
        \<and> 4 * (width rp * height rp) \<le> 2 ^ 32 \<and> rnds \<noteq> [] \<and> k < 4"
  then have h: "frameCount rp = 0" "px < width rp" "py < height rp"
    "4 * (width rp * height rp) \<le> 2 ^ 32" "k < 4" "rnds \<noteq> []" by simp_all
  show m: "accumulationData (snd (renderFrames rnds rays tracer (rp, mem0)))
          (4 * (py * width rp + px) + k)
        = mean (map (channel k) (frameColors rnds rays tracer rp (px, py)))"
    using h(1-5) h(6) by (rule renderFrames_mean)
  show "channel k (outputData (snd (renderFrames rnds rays tracer (rp, mem0))) (px, py))
        = mean (map (channel k) (frameColors rnds rays tracer rp (px, py)))"
    unfolding renderFrames_output [OF h] by (rule m)
qed

theorem accumulation_running_mean_witness:
  "accumulationData
      (snd (renderFrames [0.1, 0.2, 0.3] 1000 (\<lambda>U p. rgba (uFrameCount U) 1 0 1)
              (newRayProcessor 2 2 appScene,
               \<lparr>accumulationData = (\<lambda>i. 0), outputData = (\<lambda>p. rgba 0 0 0 0)\<rparr>)))
      12 = 1
   \<and> red (outputData
      (snd (renderFrames [0.1, 0.2, 0.3] 1000 (\<lambda>U p. rgba (uFrameCount U) 1 0 1)
              (newRayProcessor 2 2 appScene,
               \<lparr>accumulationData = (\<lambda>i. 0), outputData = (\<lambda>p. rgba 0 0 0 0)\<rparr>)))
      (1, 1)) = 1
   \<and> accumulationData
      (main (updateUniforms 0.1 1000 (newRayProcessor 2 2 appScene)) (rgba 0.25 0.5 0.75 1) (1, 1)
         \<lparr>accumulationData = (\<lambda>i. 0), outputData = (\<lambda>p. rgba 0 0 0 0)\<rparr>) 12 = 0.25"
proof -
  let ?rp = "newRayProcessor 2 2 appScene"
  let ?tr = "\<lambda>U p. rgba (uFrameCount U) 1 0 1"
  let ?mem = "\<lparr>accumulationData = (\<lambda>i. 0), outputData = (\<lambda>p. rgba 0 0 0 0)\<rparr>"
  let ?U = "updateUniforms 0.1 1000 ?rp"
  let ?R = "rgba 0.25 0.5 0.75 1"
  note T = accumulation_running_mean
    [where g = "(1, 1)" and U = ?U and k = 0 and R = ?R and mem = ?mem and rp = ?rp
       and px = 1 and py = 1 and rnds = "[0.1, 0.2, 0.3]" and rays = 1000 and tracer = ?tr
       and ?mem0.0 = ?mem]
  have w: "u32 (uWidth ?U) = 2" "u32 (uHeight ?U) = 2" "uFrameCount ?U = 0"
    by (simp_all add: updateUniforms_fields newRayProcessor_def u32_def trunc_real_def)
  have i: "pixelIndexOf ?U (1, 1) = 12"
    by (simp add: pixelIndexOf_def w)
  have f: "frameColors [0.1, 0.2, 0.3] 1000 ?tr ?rp (1, 1)
             = [rgba 0 1 0 1, rgba 1 1 0 1, rgba 2 1 0 1]"
    by (simp add: frameColors_def updateUniforms_fields)
  have pre1: "fst (1::nat, 1::nat) < u32 (uWidth ?U) \<and> snd (1::nat, 1::nat) < u32 (uHeight ?U) \<and> (0::nat) < 4"
    by (simp add: w)
  have pre2: "frameCount ?rp = 0 \<and> 1 < width ?rp \<and> 1 < height ?rp
        \<and> 4 * (width ?rp * height ?rp) \<le> 2 ^ 32 \<and> [0.1, 0.2, 0.3 :: real] \<noteq> [] \<and> (0::nat) < 4"
    by (simp add: newRayProcessor_def)
  have wd: "width ?rp = 2" by (simp add: newRayProcessor_def)
  from T pre1 have "accumulationData (main ?U ?R (1, 1) ?mem) (pixelIndexOf ?U (1, 1) + 0)
        = blend (uFrameCount ?U) (accumulationData ?mem (pixelIndexOf ?U (1, 1) + 0)) (channel 0 ?R)"
    by blast
  then have a: "accumulationData (main ?U ?R (1, 1) ?mem) 12 = 0.25"
    unfolding i w by (simp add: blend_def channel_def rgba_def)
  from T pre2 have "accumulationData (snd (renderFrames [0.1, 0.2, 0.3] 1000 ?tr (?rp, ?mem)))
          (4 * (1 * width ?rp + 1) + 0)
        = mean (map (channel 0) (frameColors [0.1, 0.2, 0.3] 1000 ?tr ?rp (1, 1)))"
    and "channel 0 (outputData (snd (renderFrames [0.1, 0.2, 0.3] 1000 ?tr (?rp, ?mem))) (1, 1))
        = mean (map (channel 0) (frameColors [0.1, 0.2, 0.3] 1000 ?tr ?rp (1, 1)))"
    by blast+
  then have b: "accumulationData (snd (renderFrames [0.1, 0.2, 0.3] 1000 ?tr (?rp, ?mem))) 12 = 1"
    and c: "red (outputData (snd (renderFrames [0.1, 0.2, 0.3] 1000 ?tr (?rp, ?mem))) (1, 1)) = 1"
    unfolding f wd by (simp_all add: mean_def channel_def rgba_def)
  from a b c show ?thesis by simp
qed


subsection \<open>Refinement of the horizon crossing\<close>



lemma sqrt3_nested: "sqrt (a\<^sup>2 + b\<^sup>2 + c\<^sup>2) = sqrt ((sqrt (a\<^sup>2 + b\<^sup>2))\<^sup>2 + c\<^sup>2)"
  by simp


lemma norm_v_multiply: "norm_v (multiply v c) = \<bar>c\<bar> * norm_v v"
proof -
  have "norm2 (multiply v c) = c\<^sup>2 * norm2 v"
    by (simp add: norm2_def multiply_def vec3_def power2_eq_square algebra_simps)
  then show ?thesis by (simp add: norm_v_def real_sqrt_mult)
qed



lemma bisectRound_fields:
  "stepLow (bisectRound U p ph b) =
     (if norm_v (add p (multiply (direction ph) ((stepLow b + stepHigh b) / 2))) < horizonRadius U
      then stepLow b else (stepLow b + stepHigh b) / 2)"
  "stepHigh (bisectRound U p ph b) =
     (if norm_v (add p (multiply (direction ph) ((stepLow b + stepHigh b) / 2))) < horizonRadius U
      then (stepLow b + stepHigh b) / 2 else stepHigh b)"
  "intersectionPoint (bisectRound U p ph b) =
     add p (multiply (direction ph) ((stepLow b + stepHigh b) / 2))"
  by (simp_all add: bisectRound_def Let_def)

lemma bisect_Suc_right:
  "bisect (Suc n) U p ph b = bisectRound U p ph (bisect n U p ph b)"
  by (induction n arbitrary: b) simp_all






lemma bisect_point:
  "intersectionPoint (bisect (Suc n) U p ph b)
     = add p (multiply (direction ph) (stepLow (bisect (Suc n) U p ph b)))
   \<or> intersectionPoint (bisect (Suc n) U p ph b)
     = add p (multiply (direction ph) (stepHigh (bisect (Suc n) U p ph b)))"
  unfolding bisect_Suc_right by (simp add: bisectRound_fields)














text \<open>
  A substep leaves the cross product of position and velocity unchanged, so the \<open>h2\<close> of a
  ray stays the squared norm of that cross product.
\<close>

lemma applyEquation_cross3:
  assumes "applyEquation U ph s = Some ph'"
  shows "cross3 (origin ph') (direction ph') = cross3 (origin ph) (direction ph)"
    and "ray_h2 ph' = ray_h2 ph"
  using assms
  by (auto simp: applyEquation_def Let_def cross3_def add_def multiply_def vec3_def algebra_simps
           split: if_splits)








subsection \<open>Flat space\<close>

lemma flatUniforms_fields:
  "camPosition (updateUniforms rnd rays (flatProcessor hs M)) = vec3 0 3 (- 20)"
  "camLookAt (updateUniforms rnd rays (flatProcessor hs M)) = vec3 0 0 0"
  "camUp (updateUniforms rnd rays (flatProcessor hs M)) = vec3 (- 0.3) 1 0"
  "bhPotentialCoefficient (updateUniforms rnd rays (flatProcessor hs M)) = 0"
  "bhStepSize (updateUniforms rnd rays (flatProcessor hs M)) = 0.16"
  "uWidth (updateUniforms rnd rays (flatProcessor hs M)) = 256"
  "uHeight (updateUniforms rnd rays (flatProcessor hs M)) = 256"
  "uFrameCount (updateUniforms rnd rays (flatProcessor hs M)) = 0"
  "uMaxIterations (updateUniforms rnd rays (flatProcessor hs M)) = M"
  "uJitterScale (updateUniforms rnd rays (flatProcessor hs M)) = 0"
  by (simp_all add: updateUniforms_record flatProcessor_def setJitterScale_def
        setMaxIterations_def setScene_def reset_def newRayProcessor_def appScene_fields)

lemma norm_v_cam: "norm_v (vec3 0 (- 3) 20) = sqrt 409"
  by (simp add: norm_v_def norm2_def vec3_def)

lemma norm_v_centralDirection: "norm_v centralDirection = 1"
  by (simp add: centralDirection_def norm_v_multiply norm_v_cam)

lemma normalize3_front:
  "normalize3 (subtract (vec3 0 0 0) (vec3 0 3 (- 20))) = Some centralDirection"
proof -
  have "subtract (vec3 0 0 0) (vec3 0 3 (- 20)) = vec3 0 (- 3) 20"
    by (simp add: subtract_def vec3_def)
  then show ?thesis
    by (simp add: normalize3_def norm_v_cam centralDirection_def)
qed

lemma cross_up_front:
  "cross3 (vec3 (- 0.3) 1 0) centralDirection
     = multiply (vec3 20 6 0.9) (1 / sqrt 409)"
  by (simp add: cross3_def centralDirection_def multiply_def vec3_def)

lemma norm_v_left_nonzero: "norm_v (multiply (vec3 20 6 0.9) (1 / sqrt 409)) \<noteq> 0"
proof -
  have "norm2 (vec3 20 6 0.9) \<noteq> 0" by (simp add: norm2_def vec3_def)
  then have "norm_v (vec3 20 6 0.9) \<noteq> 0" by (simp add: norm_v_zero_iff)
  then show ?thesis by (simp add: norm_v_multiply)
qed

lemma zero_jitter_sum:
  "add (add (multiply l 0) (multiply u 0)) f = f"
  by (simp add: add_def multiply_def vec3_def)

lemma multiply_one: "multiply v 1 = v"
  by (simp add: multiply_def vec3_def)

lemma viewDirection_central:
  "viewDirection (updateUniforms rnd rays (flatProcessor hs M)) (128, 128) = Some centralDirection"
  unfolding viewDirection_def Let_def flatUniforms_fields normalize3_front option.case
    cross_up_front
  by (simp add: normalize3_def norm_v_left_nonzero zero_jitter_sum norm_v_centralDirection
        multiply_one)

lemma sqrt409_pos: "0 < sqrt 409" "sqrt 409 \<noteq> 0"
  by simp_all

lemma initial_central:
  "setInitialConditions \<lparr>origin = vec3 0 3 (- 20), direction = centralDirection, ray_h2 = 0\<rparr>
     = centralRay 1"
  by (simp add: setInitialConditions_def Let_def cross3_def dot_def centralDirection_def
        centralRay_def multiply_def vec3_def)

lemma central_point:
  "add (multiply (vec3 0 3 (- 20)) c) (multiply centralDirection t)
     = multiply (vec3 0 3 (- 20)) (c - t / sqrt 409)"
  by (simp add: add_def multiply_def vec3_def centralDirection_def algebra_simps)

lemma norm2_central: "norm2 (multiply (vec3 0 3 (- 20)) e) = 409 * e\<^sup>2"
  by (simp add: norm2_def multiply_def vec3_def power2_eq_square algebra_simps)

lemma norm_v_central: "norm_v (multiply (vec3 0 3 (- 20)) e) = \<bar>e\<bar> * sqrt 409"
proof -
  have "norm_v (vec3 0 3 (- 20)) = sqrt 409" by (simp add: norm_v_def norm2_def vec3_def)
  then show ?thesis by (simp add: norm_v_multiply)
qed

lemma central_step:
  assumes "0 < c"
  shows "norm_v (multiply (vec3 0 3 (- 20)) c) / 30 * 0.16 = c * sqrt 409 * (2 / 375)"
  using assms by (simp add: norm_v_central)

lemma central_advance: "c - (c * sqrt 409 * (2 / 375)) / sqrt 409 = c * (373 / 375)"
  by (simp add: field_simps)

lemma applyEquation_central:
  assumes "bhPotentialCoefficient U = 0" "0 < c" "4 < 409 * c\<^sup>2"
  shows "applyEquation U (centralRay c) (c * sqrt 409 * (2 / 375))
           = Some (centralRay (c * (373 / 375)))"
proof -
  let ?s = "c * sqrt 409 * (2 / 375)"
  have "add (multiply (vec3 0 3 (- 20)) c) (multiply centralDirection ?s)
          = multiply (vec3 0 3 (- 20)) (c * (373 / 375))"
    unfolding central_point central_advance ..
  then have p: "add (origin (centralRay c)) (multiply (direction (centralRay c)) ?s)
             = multiply (vec3 0 3 (- 20)) (c * (373 / 375))"
    by (simp add: centralRay_def)
  have "sqrt 4 < sqrt (409 * c\<^sup>2)" using assms(3) by (simp only: real_sqrt_less_iff)
  then have far: "2 < c * sqrt 409" using assms(2) by (simp add: real_sqrt_mult mult.commute)
  have "norm_v (multiply (vec3 0 3 (- 20)) (c * (373 / 375))) = (c * sqrt 409) * (373 / 375)"
    unfolding norm_v_central using assms(2) by simp
  also have "1 / 1024 \<le> (c * sqrt 409) * (373 / 375)" using far by simp
  finally have "1 / 1024 \<le> norm_v (multiply (vec3 0 3 (- 20)) (c * (373 / 375)))" by simp
  then have n: "1 / 1024
      \<le> norm_v (add (origin (centralRay c)) (multiply (direction (centralRay c)) ?s))"
    unfolding p .
  show ?thesis
    unfolding applyEquation_char [OF n] p
    using assms(1) by (simp add: add_zero_vec centralRay_def)
qed

lemma bisect_range:
  assumes "stepLow b \<le> stepHigh b"
  shows "stepLow b \<le> stepLow (bisect n U p ph b)
       \<and> stepLow (bisect n U p ph b) \<le> stepHigh (bisect n U p ph b)
       \<and> stepHigh (bisect n U p ph b) \<le> stepHigh b"
proof (induction n)
  case 0
  then show ?case using assms by simp
next
  case (Suc n)
  then show ?case
    unfolding bisect_Suc_right by (auto simp: bisectRound_fields)
qed

lemma refineHorizon_central_point:
  assumes "0 \<le> s"
  shows "\<exists>t. 0 \<le> t \<and> t \<le> s
           \<and> intersectionPoint (refineHorizon U (multiply (vec3 0 3 (- 20)) c) (centralRay c') s)
               = multiply (vec3 0 3 (- 20)) (c - t / sqrt 409)"
proof -
  let ?init = "\<lparr>stepLow = 0, stepHigh = s, intersectionPoint = multiply (vec3 0 3 (- 20)) c,
              tempVelocity = Some (direction (centralRay c'))\<rparr>"
  let ?p = "multiply (vec3 0 3 (- 20)) c"
  let ?fin = "bisect 10 U ?p (centralRay c') ?init"
  have e: "refineHorizon U ?p (centralRay c') s = ?fin"
    by (simp add: refineHorizon_def)
  have "stepLow ?init \<le> stepHigh ?init" using assms by simp
  from bisect_range [OF this, of 10 U ?p "centralRay c'"]
  have r: "0 \<le> stepLow ?fin" "stepLow ?fin \<le> stepHigh ?fin" "stepHigh ?fin \<le> s"
    by simp_all
  have d: "direction (centralRay c') = centralDirection" by (simp add: centralRay_def)
  have "Suc 9 = 10" by simp
  with bisect_point [of 9 U ?p "centralRay c'" ?init]
  have "intersectionPoint ?fin = add ?p (multiply (direction (centralRay c')) (stepLow ?fin))
      \<or> intersectionPoint ?fin = add ?p (multiply (direction (centralRay c')) (stepHigh ?fin))"
    by (simp only:)
  then have "intersectionPoint ?fin = multiply (vec3 0 3 (- 20)) (c - stepLow ?fin / sqrt 409)
      \<or> intersectionPoint ?fin = multiply (vec3 0 3 (- 20)) (c - stepHigh ?fin / sqrt 409)"
    unfolding d central_point .
  then show ?thesis
    unfolding e
  proof
    assume "intersectionPoint ?fin = multiply (vec3 0 3 (- 20)) (c - stepLow ?fin / sqrt 409)"
    moreover have "stepLow ?fin \<le> s" using r(2,3) by (rule order_trans)
    ultimately show "\<exists>t. 0 \<le> t \<and> t \<le> s
           \<and> intersectionPoint ?fin = multiply (vec3 0 3 (- 20)) (c - t / sqrt 409)"
      using r(1) by blast
  next
    assume "intersectionPoint ?fin = multiply (vec3 0 3 (- 20)) (c - stepHigh ?fin / sqrt 409)"
    moreover have "0 \<le> stepHigh ?fin" using r(1,2) by (rule order_trans)
    ultimately show "\<exists>t. 0 \<le> t \<and> t \<le> s
           \<and> intersectionPoint ?fin = multiply (vec3 0 3 (- 20)) (c - t / sqrt 409)"
      using r(3) by blast
  qed
qed

lemma central_outside_bound:
  assumes "0 < (c::real)" "4 < 409 * c\<^sup>2"
  shows "2 / 21 \<le> c"
proof (rule ccontr)
  assume "\<not> 2 / 21 \<le> c"
  then have "c < 2 / 21" by simp
  then have "c\<^sup>2 < (2 / 21)\<^sup>2" using assms(1) by (intro power_strict_mono) simp_all
  then have "409 * c\<^sup>2 < 409 * (2 / 21)\<^sup>2" by simp
  also have "\<dots> < 4" by (simp add: power2_eq_square)
  finally show False using assms(2) by simp
qed

lemma vy_central: "vy (multiply (vec3 0 3 (- 20)) e) = 3 * e"
  "vx (multiply (vec3 0 3 (- 20)) e) = 0" "vz (multiply (vec3 0 3 (- 20)) e) = - 20 * e"
  by (simp_all add: multiply_def vec3_def)

lemma refineHorizon_central_not_disk:
  assumes "0 < c" "4 < 409 * c\<^sup>2"
  shows "\<not> \<bar>vy (intersectionPoint
              (refineHorizon U (multiply (vec3 0 3 (- 20)) c) (centralRay c')
                 (c * sqrt 409 * (2 / 375))))\<bar> < 0.1"
proof -
  let ?s = "c * sqrt 409 * (2 / 375)"
  have "0 \<le> ?s" using assms(1) by simp
  from refineHorizon_central_point [OF this, of U c c']
  obtain t where t: "0 \<le> t" "t \<le> ?s"
    and ip: "intersectionPoint (refineHorizon U (multiply (vec3 0 3 (- 20)) c) (centralRay c') ?s)
               = multiply (vec3 0 3 (- 20)) (c - t / sqrt 409)"
    by blast
  have "t / sqrt 409 \<le> ?s / sqrt 409" using t(2) by (rule divide_right_mono) simp
  also have "?s / sqrt 409 = c * (2 / 375)" by simp
  finally have "c * (373 / 375) \<le> c - t / sqrt 409" by simp
  moreover have "2 / 21 \<le> c" using assms by (rule central_outside_bound)
  then have "(2 / 21) * (373 / 375) \<le> c * (373 / 375)" by simp
  ultimately have "(2 / 21) * (373 / 375) \<le> c - t / sqrt 409" by linarith
  then have "0.1 \<le> 3 * (c - t / sqrt 409)" by simp
  then show ?thesis unfolding ip vy_central by simp
qed

lemma traceStep_central:
  assumes U: "bhPotentialCoefficient U = 0" "bhStepSize U = 0.16" "horizonRadius U = 2"
      "skyRadius U = 30"
    and c: "0 < c" "c \<le> 1" "4 < 409 * c\<^sup>2"
  shows "traceStep U diskTex skyTex (centralState c)
           = Some (if 409 * (c * (373 / 375))\<^sup>2 < 4 then fallenState (c * (373 / 375))
                   else centralState (c * (373 / 375)))"
proof -
  let ?p0 = "vec3 0 3 (- 20)"
  let ?c' = "c * (373 / 375)"
  let ?s = "c * sqrt 409 * (2 / 375)"
  have o: "origin (centralRay c) = multiply ?p0 c" "ray (centralState c) = centralRay c"
    "color (centralState c) = rgba 0 0 0 0"
    by (simp_all add: centralState_def centralRay_def)
  have st: "norm_v (multiply ?p0 c) / 30 * bhStepSize U = ?s"
    unfolding U(2) using c(1) by (rule central_step)
  have ap: "applyEquation U (centralRay c) ?s = Some (centralRay ?c')"
    using U(1) c(1,3) by (rule applyEquation_central)
  have o1: "origin (centralRay ?c') = multiply ?p0 ?c'" by (simp add: centralRay_def)
  have prev: "dot (multiply ?p0 c) (multiply ?p0 c) = 409 * c\<^sup>2"
    by (simp add: dot_self norm2_central)
  have new: "dot (multiply ?p0 ?c') (multiply ?p0 ?c') = 409 * ?c'\<^sup>2"
    by (simp only: dot_self norm2_central)
  have nd: "\<not> \<bar>vy (intersectionPoint (refineHorizon U (multiply ?p0 c) (centralRay ?c') ?s))\<bar> < 0.1"
    using c(1,3) by (rule refineHorizon_central_not_disk)
  have black: "addColor (rgba 0 0 0 1) (rgba 0 0 0 0) = rgba 0 0 0 1"
    by (simp add: addColor_def rgba_def)
  have c'pos: "0 < ?c'" using c(1) by simp
  have c'le: "?c' \<le> 1" using c(1,2) by simp
  have nosky: "\<not> 409 * ?c'\<^sup>2 > 30 * 30"
  proof -
    have "?c'\<^sup>2 \<le> 1\<^sup>2" using c'pos c'le by (intro power_mono) simp_all
    then show ?thesis by simp
  qed
  have side: "vy (multiply ?p0 c) > 0" using c(1) by (simp add: vy_central)
  have nocross: "\<not> vy (multiply ?p0 ?c') * (- 1) \<ge> 0" using c'pos by (simp add: vy_central)
  show ?thesis
  proof (cases "409 * ?c'\<^sup>2 < 4")
    case True
    then have h: "409 * ?c'\<^sup>2 < 2 * 2 \<and> 409 * c\<^sup>2 > 2 * 2" using c(3) by simp
    show ?thesis
      unfolding traceStep_def Let_def o st ap option.case o1 prev new U(3)
      using h nd True
      by (simp add: black fallenState_def centralState_def)
  next
    case False
    then have h: "\<not> (409 * ?c'\<^sup>2 < 2 * 2 \<and> 409 * c\<^sup>2 > 2 * 2)" by simp
    show ?thesis
      unfolding traceStep_def Let_def o st ap option.case o1 prev new U(3,4)
      using h side nocross nosky False
      by (simp add: centralState_def)
  qed
qed

lemma traceLoop_stopped:
  "stop st \<Longrightarrow> traceLoop n U diskTex skyTex st = Some st"
  by (cases n) simp_all

lemma central_never_on_horizon: "409 * ((373 / 375 :: real) ^ m)\<^sup>2 \<noteq> 4"
proof
  assume e: "409 * ((373 / 375 :: real) ^ m)\<^sup>2 = 4"
  have "((373 / 375 :: real) ^ m)\<^sup>2 = 373 ^ (2 * m) / 375 ^ (2 * m)"
    by (simp add: power_divide power_mult [symmetric] mult.commute)
  with e have "409 * (373 ^ (2 * m) / 375 ^ (2 * m)) = (4 :: real)" by simp
  then have "(409 :: real) * 373 ^ (2 * m) = 4 * 375 ^ (2 * m)"
    by (simp add: field_simps)
  then have "real (409 * 373 ^ (2 * m)) = real (4 * 375 ^ (2 * m))" by simp
  then have n: "(409 :: nat) * 373 ^ (2 * m) = 4 * 375 ^ (2 * m)"
    by (simp only: of_nat_eq_iff)
  have "even ((4 :: nat) * 375 ^ (2 * m))" by simp
  moreover have "odd ((409 :: nat) * 373 ^ (2 * m))" by simp
  ultimately show False using n by simp
qed

lemma q_power_bounds: "0 < (373 / 375 :: real) ^ m" "(373 / 375 :: real) ^ m \<le> 1"
  by (simp_all add: power_le_one)

lemma traceLoop_central:
  assumes U: "bhPotentialCoefficient U = 0" "bhStepSize U = 0.16" "horizonRadius U = 2"
      "skyRadius U = 30"
  shows "4 < 409 * ((373 / 375 :: real) ^ m)\<^sup>2 \<Longrightarrow>
     \<exists>j. traceLoop n U diskTex skyTex (centralState ((373 / 375) ^ m))
           = Some (if 409 * ((373 / 375 :: real) ^ (m + n))\<^sup>2 < 4
                   then fallenState ((373 / 375) ^ j)
                   else centralState ((373 / 375) ^ (m + n)))"
proof (induction n arbitrary: m)
  case 0
  then show ?case by simp
next
  case (Suc n)
  let ?q = "373 / 375 :: real"
  have ns: "\<not> stop (centralState (?q ^ m))" by (simp add: centralState_def)
  have step: "traceStep U diskTex skyTex (centralState (?q ^ m))
           = Some (if 409 * (?q ^ Suc m)\<^sup>2 < 4 then fallenState (?q ^ Suc m)
                   else centralState (?q ^ Suc m))"
    using traceStep_central [OF U q_power_bounds [of m] Suc.prems, of diskTex skyTex]
    by (simp add: mult.commute)
  show ?case
  proof (cases "409 * (?q ^ Suc m)\<^sup>2 < 4")
    case True
    have "?q ^ (m + Suc n) \<le> ?q ^ Suc m" by (intro power_decreasing) simp_all
    moreover have "0 \<le> ?q ^ (m + Suc n)" by simp
    ultimately have "(?q ^ (m + Suc n))\<^sup>2 \<le> (?q ^ Suc m)\<^sup>2" by (intro power_mono)
    then have lt: "409 * (?q ^ (m + Suc n))\<^sup>2 < 4" using True by linarith
    have "stop (fallenState (?q ^ Suc m))" by (simp add: fallenState_def)
    then have "traceLoop n U diskTex skyTex (fallenState (?q ^ Suc m))
                 = Some (fallenState (?q ^ Suc m))"
      by (rule traceLoop_stopped)
    then have "traceLoop (Suc n) U diskTex skyTex (centralState (?q ^ m))
                 = Some (fallenState (?q ^ Suc m))"
      using ns step True by simp
    then show ?thesis using lt by (simp only: if_True) blast
  next
    case False
    then have "4 \<le> 409 * (?q ^ Suc m)\<^sup>2" by simp
    with central_never_on_horizon [of "Suc m"] have out: "4 < 409 * (?q ^ Suc m)\<^sup>2"
      by linarith
    from Suc.IH [OF out] obtain j where
      "traceLoop n U diskTex skyTex (centralState (?q ^ Suc m))
           = Some (if 409 * (?q ^ (Suc m + n))\<^sup>2 < 4 then fallenState (?q ^ j)
                   else centralState (?q ^ (Suc m + n)))"
      by blast
    moreover have "traceLoop (Suc n) U diskTex skyTex (centralState (?q ^ m))
                   = traceLoop n U diskTex skyTex (centralState (?q ^ Suc m))"
      using ns step False by simp
    ultimately show ?thesis by (simp only: add_Suc_shift add_Suc_right add_Suc) blast
  qed
qed

lemma central_falls:
  assumes "2000 \<le> n"
  shows "409 * ((373 / 375 :: real) ^ n)\<^sup>2 < 4"
proof -
  let ?q = "373 / 375 :: real"
  have "1 + real n * (2 / 373) \<le> (1 + 2 / 373 :: real) ^ n"
    by (rule Bernoulli_inequality) simp
  moreover have "(1 + 2 / 373 :: real) = 375 / 373" by simp
  moreover have "real 2000 \<le> real n" using assms by (simp only: of_nat_le_iff)
  then have "11 \<le> 1 + real n * (2 / 373)" by simp
  ultimately have b: "11 \<le> (375 / 373 :: real) ^ n" by simp
  have "?q ^ n = 1 / (375 / 373) ^ n"
    by (simp add: power_divide)
  also have "\<dots> \<le> 1 / 11" using b by (intro divide_left_mono) simp_all
  finally have "?q ^ n \<le> 1 / 11" .
  moreover have "0 \<le> ?q ^ n" by simp
  ultimately have "(?q ^ n)\<^sup>2 \<le> (1 / 11)\<^sup>2" by (intro power_mono)
  then show ?thesis by (simp add: power2_eq_square)
qed

lemma u32_ge:
  assumes "2000 \<le> M"
  shows "2000 \<le> u32 M"
proof -
  have "0 \<le> M" using assms by simp
  then have t: "trunc_real M = \<lfloor>M\<rfloor>" by (simp add: trunc_real_def)
  have "(2000 :: int) \<le> \<lfloor>M\<rfloor>" using assms by (simp add: le_floor_iff)
  then have "nat 2000 \<le> nat \<lfloor>M\<rfloor>" by (rule nat_mono)
  then have a: "2000 \<le> nat \<lfloor>M\<rfloor>" by (simp only: nat_numeral)
  have b: "(2000 :: nat) \<le> 2 ^ 32 - 1" by simp
  show ?thesis unfolding u32_def t using a b by (rule min.boundedI)
qed

lemma flat_initial_state:
  "\<lparr>ray = setInitialConditions
            \<lparr>origin = camPosition (updateUniforms rnd rays (flatProcessor hs M)),
             direction = centralDirection, ray_h2 = 0\<rparr>,
     color = rgba 0 0 0 0, stop = False\<rparr> = centralState ((373 / 375) ^ 0)"
  by (simp add: flatUniforms_fields initial_central centralState_def)

lemma flat_central_loop:
  assumes "2000 \<le> M"
  shows "\<exists>j. traceLoop (u32 (uMaxIterations (updateUniforms rnd rays (flatProcessor hs M))))
               (updateUniforms rnd rays (flatProcessor hs M)) diskTex skyTex
               (centralState ((373 / 375) ^ 0))
             = Some (fallenState ((373 / 375) ^ j))"
proof -
  let ?U = "updateUniforms rnd rays (flatProcessor hs M)"
  have U: "bhPotentialCoefficient ?U = 0" "bhStepSize ?U = 0.16" "horizonRadius ?U = 2"
      "skyRadius ?U = 30"
    by (simp_all add: flatUniforms_fields updateUniforms_radii)
  have n: "2000 \<le> u32 (uMaxIterations ?U)"
    unfolding flatUniforms_fields using assms by (rule u32_ge)
  have out: "4 < 409 * ((373 / 375 :: real) ^ 0)\<^sup>2" by simp
  from traceLoop_central [OF U out, of "u32 (uMaxIterations ?U)" diskTex skyTex]
  obtain j where "traceLoop (u32 (uMaxIterations ?U)) ?U diskTex skyTex
                    (centralState ((373 / 375) ^ 0))
      = Some (if 409 * ((373 / 375 :: real) ^ (0 + u32 (uMaxIterations ?U)))\<^sup>2 < 4
              then fallenState ((373 / 375) ^ j)
              else centralState ((373 / 375) ^ (0 + u32 (uMaxIterations ?U))))"
    by blast
  moreover have "409 * ((373 / 375 :: real) ^ (0 + u32 (uMaxIterations ?U)))\<^sup>2 < 4"
    using central_falls [OF n] by simp
  ultimately show ?thesis by (simp only: if_True) blast
qed

lemma traceRay_central:
  assumes "2000 \<le> M"
  shows "traceRay (updateUniforms rnd rays (flatProcessor hs M)) diskTex skyTex (128, 128)
           = Some (rgba 0 0 0 1)"
proof -
  from flat_central_loop [OF assms, of rnd rays hs diskTex skyTex] obtain j where
    "traceLoop (u32 (uMaxIterations (updateUniforms rnd rays (flatProcessor hs M))))
               (updateUniforms rnd rays (flatProcessor hs M)) diskTex skyTex
               (centralState ((373 / 375) ^ 0))
             = Some (fallenState ((373 / 375) ^ j))"
    by blast
  then show ?thesis
    unfolding traceRay_def viewDirection_central option.case Let_def flat_initial_state
    by (simp add: fallenState_def)
qed

lemma flat_uniforms_ignore_hitables:
  "updateUniforms rnd rays (flatProcessor hs M) = updateUniforms rnd rays (flatProcessor [] M)"
  by (simp add: updateUniforms_record flatProcessor_def setJitterScale_def
        setMaxIterations_def setScene_def reset_def split: option.splits)

lemma main_first_frame:
  "outputData (main (updateUniforms rnd rays (flatProcessor hs M)) c (128, 128) mem) (128, 128) = c"
proof -
  let ?U = "updateUniforms rnd rays (flatProcessor hs M)"
  have w: "u32 (uWidth ?U) = 256" "u32 (uHeight ?U) = 256"
    by (simp_all add: flatUniforms_fields u32_def trunc_real_def)
  have b: "fst (128 :: nat, 128 :: nat) < u32 (uWidth ?U)" "snd (128 :: nat, 128 :: nat) < u32 (uHeight ?U)"
    by (simp_all add: w)
  show ?thesis
    unfolding main_in_bounds(5) [OF b] flatUniforms_fields
    by (simp add: blend_def rgba_def vec4_eta)
qed

lemma flat_central_stop:
  assumes "2000 \<le> M"
  shows "map_option stop
           (traceLoop (u32 (uMaxIterations (updateUniforms rnd rays (flatProcessor hs M))))
              (updateUniforms rnd rays (flatProcessor hs M)) diskTex skyTex
              \<lparr>ray = setInitialConditions
                       \<lparr>origin = camPosition (updateUniforms rnd rays (flatProcessor hs M)),
                        direction = centralDirection, ray_h2 = 0\<rparr>,
               color = rgba 0 0 0 0, stop = False\<rparr>) = Some True"
proof -
  from flat_central_loop [OF assms, of rnd rays hs diskTex skyTex] obtain j where
    "traceLoop (u32 (uMaxIterations (updateUniforms rnd rays (flatProcessor hs M))))
               (updateUniforms rnd rays (flatProcessor hs M)) diskTex skyTex
               (centralState ((373 / 375) ^ 0))
             = Some (fallenState ((373 / 375) ^ j))"
    by blast
  then show ?thesis
    unfolding flat_initial_state by (simp add: fallenState_def)
qed

text \<open>
  C4 (as amended). In the flat-space scenario (camera at (0, 3, -20) looking at the origin,
  \<open>k = 0\<close>) the list of hitables does not enter the frame: the uniforms are the same for
  every list and carry the fixed radii of horizon, disk and sky. The output image is
  therefore not entirely zero when the list is empty. With the step size 0.16, the jitter
  scale 0 and at least 2000 iterations, the ray of the centre pixel (128, 128) of an image
  of 256 by 256 pixels leaves the camera towards the origin, falls through the horizon
  sphere and sets \<open>stop\<close>; its colour is opaque black, and that is what the first frame
  writes into the output image.
\<close>

theorem flat_space_centre_pixel:
  "updateUniforms rnd rays (flatProcessor hs M) = updateUniforms rnd rays (flatProcessor [] M)
   \<and> viewDirection (updateUniforms rnd rays (flatProcessor hs M)) (128, 128)
       = Some centralDirection
   \<and> (2000 \<le> M \<longrightarrow>
        traceRay (updateUniforms rnd rays (flatProcessor hs M)) diskTex skyTex (128, 128)
          = Some (rgba 0 0 0 1)
        \<and> map_option stop
           (traceLoop (u32 (uMaxIterations (updateUniforms rnd rays (flatProcessor hs M))))
              (updateUniforms rnd rays (flatProcessor hs M)) diskTex skyTex
              \<lparr>ray = setInitialConditions
                       \<lparr>origin = camPosition (updateUniforms rnd rays (flatProcessor hs M)),
                        direction = centralDirection, ray_h2 = 0\<rparr>,
               color = rgba 0 0 0 0, stop = False\<rparr>) = Some True
        \<and> outputData (main (updateUniforms rnd rays (flatProcessor hs M)) (rgba 0 0 0 1)
                         (128, 128) mem) (128, 128) = rgba 0 0 0 1)"
proof (intro conjI impI)
  show "updateUniforms rnd rays (flatProcessor hs M) = updateUniforms rnd rays (flatProcessor [] M)"
    by (rule flat_uniforms_ignore_hitables)
  show "viewDirection (updateUniforms rnd rays (flatProcessor hs M)) (128, 128)
       = Some centralDirection"
    by (rule viewDirection_central)
  show "outputData (main (updateUniforms rnd rays (flatProcessor hs M)) (rgba 0 0 0 1)
                         (128, 128) mem) (128, 128) = rgba 0 0 0 1"
    by (rule main_first_frame)
next
  assume m: "2000 \<le> M"
  then show "traceRay (updateUniforms rnd rays (flatProcessor hs M)) diskTex skyTex (128, 128)
          = Some (rgba 0 0 0 1)"
    by (rule traceRay_central)
  from m show "map_option stop
           (traceLoop (u32 (uMaxIterations (updateUniforms rnd rays (flatProcessor hs M))))
              (updateUniforms rnd rays (flatProcessor hs M)) diskTex skyTex
              \<lparr>ray = setInitialConditions
                       \<lparr>origin = camPosition (updateUniforms rnd rays (flatProcessor hs M)),
                        direction = centralDirection, ray_h2 = 0\<rparr>,
               color = rgba 0 0 0 0, stop = False\<rparr>) = Some True"
    by (rule flat_central_stop)
qed

theorem flat_space_centre_pixel_witness:
  "(2000 :: real) \<le> 100000
   \<and> traceRay (updateUniforms 0.5 1000 (flatProcessor [Horizon] 100000))
        (\<lambda>c. rgba 1 1 1 1) (\<lambda>c. rgba 0 0 1 1) (128, 128) = Some (rgba 0 0 0 1)
   \<and> updateUniforms 0.5 1000 (flatProcessor [Horizon] 100000)
       = updateUniforms 0.5 1000 (flatProcessor [] 100000)"
proof -
  have h: "(2000 :: real) \<le> 100000" by simp
  from flat_space_centre_pixel
         [where rnd = "0.5" and rays = 1000 and hs = "[Horizon]" and M = 100000
            and diskTex = "\<lambda>c. rgba 1 1 1 1" and skyTex = "\<lambda>c. rgba 0 0 1 1"
            and mem = "\<lparr>accumulationData = (\<lambda>i. 0), outputData = (\<lambda>p. rgba 0 0 0 0)\<rparr>"] h
  show ?thesis by blast
qed

text \<open>
  C4 as stated fails. With no hitables in the scene, the default 100000 iterations, the
  placeholder textures (white disk, blue sky) and an empty accumulation buffer, the ray of
  the centre pixel stops at the horizon and the first frame writes opaque black, not
  zero, into the output image.
\<close>

theorem flat_space_zero_image_counterexample:
  "hitables (scene (flatProcessor [] 100000)) = []
   \<and> potentialCoefficient (schwarzschildEquation (scene (flatProcessor [] 100000))) = 0
   \<and> cameraPosition (scene (flatProcessor [] 100000)) = vec3 0 3 (- 20)
   \<and> cameraLookAt (scene (flatProcessor [] 100000)) = vec3 0 0 0
   \<and> frameCount (flatProcessor [] 100000) = 0
   \<and> traceRay (updateUniforms 0.5 1000 (flatProcessor [] 100000))
        (\<lambda>c. rgba 1 1 1 1) (\<lambda>c. rgba 0 0 1 1) (128, 128) = Some (rgba 0 0 0 1)
   \<and> outputData
        (main (updateUniforms 0.5 1000 (flatProcessor [] 100000)) (rgba 0 0 0 1) (128, 128)
           \<lparr>accumulationData = (\<lambda>i. 0), outputData = (\<lambda>p. rgba 0 0 0 0)\<rparr>) (128, 128)
       = rgba 0 0 0 1
   \<and> rgba 0 0 0 1 \<noteq> rgba 0 0 0 0"
proof -
  have "(2000 :: real) \<le> 100000" by simp
  then have "traceRay (updateUniforms 0.5 1000 (flatProcessor [] 100000))
        (\<lambda>c. rgba 1 1 1 1) (\<lambda>c. rgba 0 0 1 1) (128, 128) = Some (rgba 0 0 0 1)"
    by (rule traceRay_central)
  moreover have "outputData
        (main (updateUniforms 0.5 1000 (flatProcessor [] 100000)) (rgba 0 0 0 1) (128, 128)
           \<lparr>accumulationData = (\<lambda>i. 0), outputData = (\<lambda>p. rgba 0 0 0 0)\<rparr>) (128, 128)
       = rgba 0 0 0 1"
    by (rule main_first_frame)
  moreover have "hitables (scene (flatProcessor [] 100000)) = []"
    "potentialCoefficient (schwarzschildEquation (scene (flatProcessor [] 100000))) = 0"
    "cameraPosition (scene (flatProcessor [] 100000)) = vec3 0 3 (- 20)"
    "cameraLookAt (scene (flatProcessor [] 100000)) = vec3 0 0 0"
    "frameCount (flatProcessor [] 100000) = 0"
    by (simp_all add: flatProcessor_def setJitterScale_def setMaxIterations_def setScene_def
          reset_def appScene_fields)
  moreover have "rgba 0 0 0 1 \<noteq> rgba 0 0 0 0" by (simp add: rgba_def)
  ultimately show ?thesis by simp
qed

end
